theory Spec2Isabelle
  imports Complex_Main "HOL-Library.Multiset"
begin

section \<open>Strings as the collector reads them\<close>

text \<open>
  A Python \<^verbatim>\<open>str\<close> is modelled as a \<^typ>\<open>string\<close> whose characters are the code
  points below 256. \<^verbatim>\<open>str.strip()\<close> without argument removes the characters
  for which \<^verbatim>\<open>str.isspace()\<close> holds; below 256 these are the code points
  9 to 13, 28 to 32, 133 and 160.
\<close>

definition py_isspace :: "char \<Rightarrow> bool" where
  "py_isspace c =
     (of_char c \<in> {9::nat, 10, 11, 12, 13, 28, 29, 30, 31, 32, 133, 160})"

definition py_strip :: "string \<Rightarrow> string" where
  "py_strip s = rev (dropWhile py_isspace (rev (dropWhile py_isspace s)))"

text \<open>
  \<^verbatim>\<open>Series.str.contains('Unknown', case=False)\<close> searches the pattern, which has
  no regular-expression operator, ignoring case. Below code point 256 the only
  characters that match a letter of the pattern are its two ASCII cases.
\<close>

definition py_lower :: "char \<Rightarrow> char" where
  "py_lower c =
     (let n = (of_char c :: nat) in if 65 \<le> n \<and> n \<le> 90 then char_of (n + 32) else c)"

fun str_find :: "string \<Rightarrow> string \<Rightarrow> bool" where
  "str_find pat [] = (pat = [])"
| "str_find pat (c # cs) = (take (length pat) (c # cs) = pat \<or> str_find pat cs)"

definition str_contains_nocase :: "string \<Rightarrow> string \<Rightarrow> bool" where
  "str_contains_nocase pat s = str_find (map py_lower pat) (map py_lower s)"

section \<open>The table of normalized records\<close>

text \<open>
  A row of the data frame built by \<^verbatim>\<open>process_to_dataframe\<close>. The record names
  the columns that the cleaner and the quality gate read; the other columns
  of the frame, which they never read, are the extension of the record, so
  every statement below holds for rows that carry them. An award amount is
  a finite float, read as the rational number it denotes (NaN and the
  infinities are outside the model).
\<close>

record row =
  award_id :: string
  recipient_name :: string
  award_amount :: rat
  awarding_agency :: string

subsection \<open>The library sort\<close>

text \<open>
  \<^verbatim>\<open>df.sort_values('award_amount', ascending=False)\<close> is a call into pandas, which
  is not part of the repository: the cleaner takes it as the parameter
  \<open>sort_values\<close>. The call names no \<^verbatim>\<open>kind\<close>, so the default, quicksort, is
  used: it returns the rows reordered, amounts descending (\<open>sorts_descending\<close>),
  and promises nothing about the order of rows with equal amounts.
\<close>

definition sorts_descending :: "('a row_scheme list \<Rightarrow> 'a row_scheme list) \<Rightarrow> bool" where
  "sorts_descending sort_values \<longleftrightarrow>
     (\<forall>df. mset (sort_values df) = mset df \<and>
           sorted_wrt (\<lambda>a b. award_amount b \<le> award_amount a) (sort_values df))"

text \<open>
  Two functions that sort descending and differ on ties only: an insertion
  sort on the negated amount, which keeps rows of equal amount in the order
  they had, and the reverse of the insertion sort on the amount, which
  reverses that order.
\<close>

definition stable_sort_values :: "'a row_scheme list \<Rightarrow> 'a row_scheme list" where
  "stable_sort_values df = sort_key (\<lambda>r. - award_amount r) df"


subsection \<open>\<^verbatim>\<open>clean_dataframe\<close>\<close>

text \<open>Step 1: \<^verbatim>\<open>df[df['recipient_name'].str.strip() != '']\<close>.\<close>

definition drop_empty_recipients :: "'a row_scheme list \<Rightarrow> 'a row_scheme list" where
  "drop_empty_recipients df = filter (\<lambda>r. py_strip (recipient_name r) \<noteq> []) df"

text \<open>
  Step 2: the rows with a zero amount and a name containing \<^verbatim>\<open>Unknown\<close> are
  filtered out inside the branch \<^verbatim>\<open>if negative_count > 0\<close>, where
  \<^verbatim>\<open>negative_count = (df['award_amount'] < 0).sum()\<close>.
\<close>

definition negative_count :: "'a row_scheme list \<Rightarrow> nat" where
  "negative_count df = length (filter (\<lambda>r. award_amount r < 0) df)"

definition zero_unknown :: "'a row_scheme \<Rightarrow> bool" where
  "zero_unknown r \<longleftrightarrow>
     award_amount r = 0 \<and> str_contains_nocase ''Unknown'' (recipient_name r)"

definition handle_negative_amounts :: "'a row_scheme list \<Rightarrow> 'a row_scheme list" where
  "handle_negative_amounts df =
     (if negative_count df > 0 then filter (\<lambda>r. \<not> zero_unknown r) df else df)"

text \<open>
  Step 3: \<^verbatim>\<open>df.duplicated(subset=['award_id'])\<close> marks a row whose identifier
  occurs in an earlier row; \<^verbatim>\<open>drop_duplicates(subset=['award_id'], keep='first')\<close>
  removes the marked rows. \<open>seen\<close> holds the identifiers met so far.
\<close>

fun duplicated :: "string list \<Rightarrow> 'a row_scheme list \<Rightarrow> bool list" where
  "duplicated seen [] = []"
| "duplicated seen (r # rs) =
     (award_id r \<in> set seen) # duplicated (award_id r # seen) rs"

definition duplicate_count :: "'a row_scheme list \<Rightarrow> nat" where
  "duplicate_count df = length (filter (\<lambda>d. d) (duplicated [] df))"

fun drop_duplicates_from :: "string list \<Rightarrow> 'a row_scheme list \<Rightarrow> 'a row_scheme list" where
  "drop_duplicates_from seen [] = []"
| "drop_duplicates_from seen (r # rs) =
     (if award_id r \<in> set seen then drop_duplicates_from seen rs
      else r # drop_duplicates_from (award_id r # seen) rs)"

definition drop_duplicates :: "'a row_scheme list \<Rightarrow> 'a row_scheme list" where
  "drop_duplicates df = drop_duplicates_from [] df"

definition handle_duplicates ::
  "('a row_scheme list \<Rightarrow> 'a row_scheme list) \<Rightarrow> 'a row_scheme list \<Rightarrow> 'a row_scheme list" where
  "handle_duplicates sort_values df =
     (if duplicate_count df > 0 then drop_duplicates (sort_values df) else df)"

text \<open>
  The whole cleaner. An empty frame is returned as it is; otherwise the three
  steps run in this order and the result is sorted once more (step 4). The
  index reset of step 5 does not change the list of rows. The printed
  summaries have no effect on the result.
\<close>

definition clean_dataframe ::
  "('a row_scheme list \<Rightarrow> 'a row_scheme list) \<Rightarrow> 'a row_scheme list \<Rightarrow> 'a row_scheme list" where
  "clean_dataframe sort_values df =
     (if df = [] then df
      else sort_values
             (handle_duplicates sort_values
                (handle_negative_amounts (drop_empty_recipients df))))"


subsection \<open>\<^verbatim>\<open>validate_processed_data\<close>\<close>

text \<open>
  A data frame: its column labels and its rows. \<^verbatim>\<open>df.empty\<close> holds when either
  axis has length zero.
\<close>

datatype 'r dataframe = DataFrame (df_columns: "string list") (df_rows: "'r list")

definition df_empty :: "'r dataframe \<Rightarrow> bool" where
  "df_empty df \<longleftrightarrow> df_columns df = [] \<or> df_rows df = []"

definition required_columns :: "string list" where
  "required_columns =
     [''award_id'', ''recipient_name'', ''award_amount'', ''awarding_agency'', ''fetched_at'']"

datatype issue =
    EmptyRecipients nat
  | InvalidAmounts nat
  | VeryLargeAmounts nat
  | EmptyAgencies nat
  | DuplicateIds nat

definition empty_recipients :: "'a row_scheme list \<Rightarrow> nat" where
  "empty_recipients rows = length (filter (\<lambda>r. py_strip (recipient_name r) = []) rows)"

definition invalid_amounts :: "'a row_scheme list \<Rightarrow> nat" where
  "invalid_amounts rows = length (filter (\<lambda>r. award_amount r \<le> 0) rows)"

definition very_large_amounts :: "'a row_scheme list \<Rightarrow> nat" where
  "very_large_amounts rows = length (filter (\<lambda>r. award_amount r > 10 ^ 12) rows)"

definition empty_agencies :: "'a row_scheme list \<Rightarrow> nat" where
  "empty_agencies rows = length (filter (\<lambda>r. py_strip (awarding_agency r) = []) rows)"

definition issues_found :: "'a row_scheme list \<Rightarrow> issue list" where
  "issues_found rows =
     (if empty_recipients rows > 0 then [EmptyRecipients (empty_recipients rows)] else []) @
     (if invalid_amounts rows > 0 then [InvalidAmounts (invalid_amounts rows)] else []) @
     (if very_large_amounts rows > 0 then [VeryLargeAmounts (very_large_amounts rows)] else []) @
     (if empty_agencies rows > 0 then [EmptyAgencies (empty_agencies rows)] else []) @
     (if duplicate_count rows > 0 then [DuplicateIds (duplicate_count rows)] else [])"

text \<open>
  The test \<^verbatim>\<open>critical_issues > total_records * 0.1\<close> is a comparison of an
  integer with a float product. It is written here over the rationals; for
  frames of fewer than \<open>10^15\<close> rows the rounded product lies on the same side
  of every integer as the exact tenth, so both comparisons agree.
\<close>

definition validate_processed_data :: "'a row_scheme dataframe \<Rightarrow> bool" where
  "validate_processed_data df =
     (if df_empty df then False
      else
        let missing_columns = filter (\<lambda>col. col \<notin> set (df_columns df)) required_columns in
        if missing_columns \<noteq> [] then False
        else
          let rows = df_rows df;
              total_records = length rows;
              issues = issues_found rows
          in if issues \<noteq> [] then
               (let critical_issues = empty_recipients rows + duplicate_count rows
                in if rat_of_nat critical_issues > rat_of_nat total_records * (1 / 10)
                   then False else True)
             else True)"

section \<open>Values received from the API\<close>

text \<open>
  The value that \<^verbatim>\<open>response.json()\<close> returns: Python's reading of a JSON
  document. A float is a rational or one of the three special values; a
  \<^verbatim>\<open>dict\<close> is a list of bindings with distinct keys, looked up with
  \<^const>\<open>map_of\<close>.
\<close>

datatype float64 = Finite rat | PlusInf | MinusInf | NaN

datatype json =
    JNull
  | JBool bool
  | JInt int
  | JFloat float64
  | JStr string
  | JList "json list"
  | JObj "(string \<times> json) list"

datatype py_error = TypeError | AttributeError | ValueError | KeyError | OverflowError

text \<open>Truth value of a Python object, \<^verbatim>\<open>len\<close>, \<^verbatim>\<open>in\<close> and \<^verbatim>\<open>.keys()\<close>.\<close>

fun py_truthy :: "json \<Rightarrow> bool" where
  "py_truthy JNull = False"
| "py_truthy (JBool b) = b"
| "py_truthy (JInt i) = (i \<noteq> 0)"
| "py_truthy (JFloat f) = (f \<noteq> Finite 0)"
| "py_truthy (JStr s) = (s \<noteq> [])"
| "py_truthy (JList xs) = (xs \<noteq> [])"
| "py_truthy (JObj kvs) = (kvs \<noteq> [])"

fun py_len :: "json \<Rightarrow> py_error + nat" where
  "py_len (JStr s) = Inr (length s)"
| "py_len (JList xs) = Inr (length xs)"
| "py_len (JObj kvs) = Inr (length kvs)"
| "py_len _ = Inl TypeError"

fun py_in :: "string \<Rightarrow> json \<Rightarrow> py_error + bool" where
  "py_in k (JObj kvs) = Inr (k \<in> fst ` set kvs)"
| "py_in k (JList xs) = Inr (JStr k \<in> set xs)"
| "py_in k (JStr s) = Inr (str_find k s)"
| "py_in k _ = Inl TypeError"

fun py_keys :: "json \<Rightarrow> py_error + string list" where
  "py_keys (JObj kvs) = Inr (map fst kvs)"
| "py_keys _ = Inl AttributeError"

subsection \<open>\<^verbatim>\<open>validate_api_response\<close>\<close>

definition basic_fields :: "string list" where
  "basic_fields = [''Award ID'', ''Recipient Name'', ''Award Amount'']"

text \<open>
  The loop \<^verbatim>\<open>for field in basic_fields: if field in first_record: ...\<close>; the
  first membership test that raises ends it.
\<close>

fun find_fields :: "string list \<Rightarrow> json \<Rightarrow> py_error + string list" where
  "find_fields [] first_record = Inr []"
| "find_fields (field # rest) first_record =
     (case py_in field first_record of
        Inl e \<Rightarrow> Inl e
      | Inr b \<Rightarrow>
          (case find_fields rest first_record of
             Inl e \<Rightarrow> Inl e
           | Inr found \<Rightarrow> Inr (if b then field # found else found)))"

text \<open>
  The validator has no handler of its own: \<open>Inl\<close> is an exception that leaves
  it. \<^verbatim>\<open>len(first_record)\<close> is evaluated for a debug line before the fields are
  looked for, and \<^verbatim>\<open>first_record.keys()\<close> for another on the failing branch.
\<close>

definition validate_api_response :: "json \<Rightarrow> py_error + bool" where
  "validate_api_response response_data =
     (case response_data of
        JObj d \<Rightarrow>
          (case map_of d ''results'' of
             None \<Rightarrow> Inr False
           | Some (JList results) \<Rightarrow>
               (case results of
                  [] \<Rightarrow> Inr True
                | first_record # _ \<Rightarrow>
                    (case py_len first_record of
                       Inl e \<Rightarrow> Inl e
                     | Inr _ \<Rightarrow>
                         (case find_fields basic_fields first_record of
                            Inl e \<Rightarrow> Inl e
                          | Inr found_fields \<Rightarrow>
                              if length found_fields = 0 then
                                (case py_keys first_record of
                                   Inl e \<Rightarrow> Inl e
                                 | Inr _ \<Rightarrow> Inr False)
                              else Inr True)))
           | Some _ \<Rightarrow> Inr False)
      | _ \<Rightarrow> Inr False)"

section \<open>Field extraction\<close>

subsection \<open>The conversions \<^verbatim>\<open>str\<close>, \<^verbatim>\<open>float\<close> and \<^verbatim>\<open>int\<close>\<close>

text \<open>
  \<^verbatim>\<open>str(value)\<close> of a string is the string. The text that Python prints for
  a number, a list or a dict is not modelled: it is the parameter \<open>repr\<close>.
\<close>

definition py_str :: "(json \<Rightarrow> string) \<Rightarrow> json \<Rightarrow> string" where
  "py_str repr v = (case v of JStr s \<Rightarrow> s | _ \<Rightarrow> repr v)"

text \<open>
  \<^verbatim>\<open>float\<close> and \<^verbatim>\<open>int\<close> of a string skip blanks at both ends. These are not
  the blanks of \<^verbatim>\<open>str.strip\<close>: the conversion maps the blanks beyond ASCII
  (below 256: 133 and 160) to a space and then skips the ASCII blanks 9 to 13
  and 32 only, so the separators 28 to 31 make the text invalid.
\<close>

definition number_isspace :: "char \<Rightarrow> bool" where
  "number_isspace c = (of_char c \<in> {9::nat, 10, 11, 12, 13, 32, 133, 160})"

definition number_strip :: "string \<Rightarrow> string" where
  "number_strip s = rev (dropWhile number_isspace (rev (dropWhile number_isspace s)))"

text \<open>
  \<^verbatim>\<open>float\<close> of a string follows the grammar of the language reference: a sign,
  then \<^verbatim>\<open>inf\<close>, \<^verbatim>\<open>infinity\<close> or \<^verbatim>\<open>nan\<close> in any case, or digits with single
  underscores between them, a point and an exponent. The value is the
  rational that the literal denotes, or an infinity when it lies beyond the
  range of a double, that is, when its absolute value reaches
  \<open>2^1024 - 2^970\<close>, half way between the largest double and \<open>2^1024\<close>. The
  rounding of a value within the range is not modelled.
\<close>

definition float_overflow :: rat where
  "float_overflow = 2 ^ 1024 - 2 ^ 970"

definition to_float64 :: "rat \<Rightarrow> float64" where
  "to_float64 q =
     (if float_overflow \<le> q then PlusInf
      else if q \<le> - float_overflow then MinusInf
      else Finite q)"

definition is_digit :: "char \<Rightarrow> bool" where
  "is_digit c \<longleftrightarrow> 48 \<le> (of_char c :: nat) \<and> (of_char c :: nat) \<le> 57"

definition digit_val :: "char \<Rightarrow> nat" where
  "digit_val c = of_char c - 48"

fun digitpart :: "string \<Rightarrow> string \<times> string" where
  "digitpart [] = ([], [])"
| "digitpart [c] = (if is_digit c then ([c], []) else ([], [c]))"
| "digitpart (c # u # cs) =
     (if \<not> is_digit c then ([], c # u # cs)
      else if u = CHR ''_'' \<and> cs \<noteq> [] \<and> is_digit (hd cs)
           then (c # fst (digitpart cs), snd (digitpart cs))
           else (c # fst (digitpart (u # cs)), snd (digitpart (u # cs))))"

definition nat_of_digits :: "string \<Rightarrow> nat" where
  "nat_of_digits ds = foldl (\<lambda>a c. 10 * a + digit_val c) 0 ds"

definition take_sign :: "string \<Rightarrow> bool \<times> string" where
  "take_sign s =
     (case s of
        [] \<Rightarrow> (False, [])
      | c # cs \<Rightarrow>
          if c = CHR ''-'' then (True, cs)
          else if c = CHR ''+'' then (False, cs)
          else (False, c # cs))"

definition parse_exponent :: "string \<Rightarrow> int option" where
  "parse_exponent s =
     (case s of
        [] \<Rightarrow> Some 0
      | c # cs \<Rightarrow>
          if c = CHR ''e'' \<or> c = CHR ''E'' then
            (let (neg, r) = take_sign cs; (ds, r') = digitpart r
             in if ds = [] \<or> r' \<noteq> [] then None
                else Some (if neg then - int (nat_of_digits ds) else int (nat_of_digits ds)))
          else None)"

definition scale10 :: "rat \<Rightarrow> int \<Rightarrow> rat" where
  "scale10 q e = (if 0 \<le> e then q * 10 ^ nat e else q / 10 ^ nat (- e))"

definition parse_number :: "string \<Rightarrow> rat option" where
  "parse_number s =
     (let (ip, r1) = digitpart s;
          (fp, r2) = (if r1 \<noteq> [] \<and> hd r1 = CHR ''.'' then digitpart (tl r1) else ([], r1))
      in if ip = [] \<and> fp = [] then None
         else
           (case parse_exponent r2 of
              None \<Rightarrow> None
            | Some e \<Rightarrow>
                Some (scale10 (rat_of_nat (nat_of_digits (ip @ fp)) / 10 ^ length fp) e)))"

definition parse_float :: "string \<Rightarrow> float64 option" where
  "parse_float s =
     (let (neg, u) = take_sign (number_strip s); l = map py_lower u
      in if l = ''inf'' \<or> l = ''infinity'' then Some (if neg then MinusInf else PlusInf)
         else if l = ''nan'' then Some NaN
         else
           (case parse_number u of
              None \<Rightarrow> None
            | Some q \<Rightarrow> Some (to_float64 (if neg then - q else q))))"

text \<open>
  \<^verbatim>\<open>float\<close> of an integer beyond the range of a double raises
  \<^verbatim>\<open>OverflowError\<close>; of a list, a dict or \<^verbatim>\<open>None\<close> it raises \<^verbatim>\<open>TypeError\<close>.
\<close>

fun py_float :: "json \<Rightarrow> py_error + float64" where
  "py_float (JFloat f) = Inr f"
| "py_float (JInt i) =
     (if float_overflow \<le> \<bar>rat_of_int i\<bar> then Inl OverflowError
      else Inr (Finite (rat_of_int i)))"
| "py_float (JBool b) = Inr (Finite (if b then 1 else 0))"
| "py_float (JStr s) = (case parse_float s of None \<Rightarrow> Inl ValueError | Some f \<Rightarrow> Inr f)"
| "py_float _ = Inl TypeError"

text \<open>
  \<^verbatim>\<open>int\<close> of a string reads blanks, a sign and digits with single underscores
  between them; of a float it truncates towards zero, and raises on an
  infinity or NaN. The bound that recent interpreters put on the number of
  digits of the text is not modelled; no call of the source converts to
  \<^verbatim>\<open>int\<close>.
\<close>

definition parse_int :: "string \<Rightarrow> int option" where
  "parse_int s =
     (let (neg, u) = take_sign (number_strip s); (ds, r) = digitpart u
      in if ds = [] \<or> r \<noteq> [] then None
         else Some (if neg then - int (nat_of_digits ds) else int (nat_of_digits ds)))"

fun py_int :: "json \<Rightarrow> py_error + int" where
  "py_int (JInt i) = Inr i"
| "py_int (JBool b) = Inr (if b then 1 else 0)"
| "py_int (JFloat (Finite q)) = Inr (if 0 \<le> q then \<lfloor>q\<rfloor> else \<lceil>q\<rceil>)"
| "py_int (JFloat NaN) = Inl ValueError"
| "py_int (JFloat _) = Inl OverflowError"
| "py_int (JStr s) = (case parse_int s of None \<Rightarrow> Inl ValueError | Some i \<Rightarrow> Inr i)"
| "py_int _ = Inl TypeError"

subsection \<open>\<^verbatim>\<open>safe_extract\<close>\<close>

text \<open>
  The third argument of \<^verbatim>\<open>safe_extract\<close>: the type \<^verbatim>\<open>str\<close>, \<^verbatim>\<open>float\<close> or \<^verbatim>\<open>int\<close>,
  or anything else.
\<close>

datatype convert_type = ConvStr | ConvFloat | ConvInt | ConvOther

text \<open>The body of the \<^verbatim>\<open>try\<close> block; \<open>Inl\<close> is an exception raised in it.\<close>

definition extract_value ::
  "(json \<Rightarrow> string) \<Rightarrow> (string \<times> json) list \<Rightarrow> string \<Rightarrow> json \<Rightarrow> convert_type
     \<Rightarrow> py_error + json" where
  "extract_value repr item field_name fallback conv =
     (let v = (case map_of item field_name of None \<Rightarrow> fallback | Some x \<Rightarrow> x)
      in if v = JNull \<or> v = JStr [] then Inr fallback
         else
           (case conv of
              ConvStr \<Rightarrow>
                if v \<noteq> JStr [] then Inr (JStr (py_strip (py_str repr v))) else Inr fallback
            | ConvFloat \<Rightarrow>
                if v \<notin> {JNull, JStr [], JStr ''null''} then
                  (case py_float v of Inl e \<Rightarrow> Inl e | Inr f \<Rightarrow> Inr (JFloat f))
                else Inr (JFloat (Finite 0))
            | ConvInt \<Rightarrow>
                if v \<notin> {JNull, JStr [], JStr ''null''} then
                  (case py_int v of Inl e \<Rightarrow> Inl e | Inr i \<Rightarrow> Inr (JInt i))
                else Inr (JInt 0)
            | ConvOther \<Rightarrow> Inr v))"

text \<open>
  \<^verbatim>\<open>field_errors[field_name] = field_errors.get(field_name, 0) + 1\<close> on the
  dictionary of error counts.
\<close>

definition tally :: "(string \<rightharpoonup> nat) \<Rightarrow> string \<Rightarrow> (string \<rightharpoonup> nat)" where
  "tally field_errors field_name =
     field_errors(field_name \<mapsto> (case field_errors field_name of None \<Rightarrow> 0 | Some n \<Rightarrow> n) + 1)"

text \<open>
  The helper itself: the handler \<^verbatim>\<open>except Exception\<close> turns every exception of
  the body into the fallback and counts it. The dictionary of counts is
  passed in and returned.
\<close>

definition safe_extract ::
  "(json \<Rightarrow> string) \<Rightarrow> (string \<times> json) list \<Rightarrow> string \<Rightarrow> json \<Rightarrow> convert_type
     \<Rightarrow> (string \<rightharpoonup> nat) \<Rightarrow> json \<times> (string \<rightharpoonup> nat)" where
  "safe_extract repr item field_name fallback conv field_errors =
     (case extract_value repr item field_name fallback conv of
        Inr v \<Rightarrow> (v, field_errors)
      | Inl e \<Rightarrow> (fallback, tally field_errors field_name))"

subsection \<open>The fields of a record\<close>

text \<open>The decimal text of a natural number, for \<^verbatim>\<open>f'UNKNOWN_ID_{i+1}'\<close>.\<close>

fun str_of_nat :: "nat \<Rightarrow> string" where
  "str_of_nat n =
     (if n < 10 then [char_of (48 + n)]
      else str_of_nat (n div 10) @ [char_of (48 + n mod 10)])"

declare str_of_nat.simps [simp del]

text \<open>
  The calls of \<^verbatim>\<open>safe_extract\<close> in \<^verbatim>\<open>process_to_dataframe\<close>, in their order: the
  column, the field of the API, the declared fallback and the type. \<open>i\<close> is
  the index of the record in the page.
\<close>

definition field_table :: "nat \<Rightarrow> (string \<times> string \<times> json \<times> convert_type) list" where
  "field_table i =
     [(''award_amount'', ''Award Amount'', JFloat (Finite 0), ConvFloat),
      (''covid_19_obligations'', ''COVID-19 Obligations'', JFloat (Finite 0), ConvFloat),
      (''covid_19_outlays'', ''COVID-19 Outlays'', JFloat (Finite 0), ConvFloat),
      (''infrastructure_obligations'', ''Infrastructure Obligations'', JFloat (Finite 0), ConvFloat),
      (''infrastructure_outlays'', ''Infrastructure Outlays'', JFloat (Finite 0), ConvFloat),
      (''award_id'', ''Award ID'', JStr (''UNKNOWN_ID_'' @ str_of_nat (i + 1)), ConvStr),
      (''recipient_name'', ''Recipient Name'', JStr ''Unknown Recipient'', ConvStr),
      (''recipient_id'', ''recipient_id'', JStr ''No ID'', ConvStr),
      (''recipient_uei'', ''Recipient UEI'', JStr ''No UEI'', ConvStr),
      (''awarding_agency'', ''Awarding Agency'', JStr ''Unknown Agency'', ConvStr),
      (''awarding_agency_code'', ''Awarding Agency Code'', JStr ''Unknown Code'', ConvStr),
      (''awarding_sub_agency'', ''Awarding Sub Agency'', JStr ''Unknown Sub Agency'', ConvStr),
      (''awarding_sub_agency_code'', ''Awarding Sub Agency Code'', JStr ''Unknown Code'', ConvStr),
      (''funding_agency'', ''Funding Agency'', JStr ''Unknown Funding Agency'', ConvStr),
      (''funding_agency_code'', ''Funding Agency Code'', JStr ''Unknown Code'', ConvStr),
      (''funding_sub_agency'', ''Funding Sub Agency'', JStr ''Unknown Sub Agency'', ConvStr),
      (''funding_sub_agency_code'', ''Funding Sub Agency Code'', JStr ''Unknown Code'', ConvStr),
      (''place_of_performance_state_code'', ''Place of Performance State Code'',
         JStr ''Unknown'', ConvStr),
      (''place_of_performance_country_code'', ''Place of Performance Country Code'',
         JStr ''USA'', ConvStr),
      (''place_of_performance_zip5'', ''Place of Performance Zip5'', JStr ''Unknown'', ConvStr),
      (''description'', ''Description'', JStr ''No Description'', ConvStr),
      (''contract_award_type'', ''Contract Award Type'', JStr ''N/A'', ConvStr),
      (''naics_code'', ''naics_code'', JStr ''Unknown'', ConvStr),
      (''naics_description'', ''naics_description'', JStr ''Unknown'', ConvStr),
      (''psc_code'', ''psc_code'', JStr ''Unknown'', ConvStr),
      (''psc_description'', ''psc_description'', JStr ''Unknown'', ConvStr),
      (''last_modified_date'', ''Last Modified Date'', JStr ''Unknown Date'', ConvStr),
      (''base_obligation_date'', ''Base Obligation Date'', JStr ''Unknown Date'', ConvStr),
      (''start_date'', ''Start Date'', JStr ''Unknown Date'', ConvStr),
      (''end_date'', ''End Date'', JStr ''Unknown Date'', ConvStr)]"

text \<open>
  The two kinds of entry of the table: a zero converted by \<^verbatim>\<open>float\<close>, or a
  string that \<^verbatim>\<open>strip\<close> leaves as it is, converted by \<^verbatim>\<open>str\<close>.
\<close>

definition declared :: "json \<Rightarrow> convert_type \<Rightarrow> bool" where
  "declared fallback conv \<longleftrightarrow>
     (conv = ConvFloat \<and> fallback = JFloat (Finite 0)) \<or>
     (conv = ConvStr \<and> (\<exists>s. fallback = JStr s \<and> py_strip s = s))"

text \<open>
  The record of one item: every field of the table extracted in turn, the
  counts of errors threaded through.
\<close>

fun extract_fields ::
  "(json \<Rightarrow> string) \<Rightarrow> (string \<times> json) list \<Rightarrow> (string \<times> string \<times> json \<times> convert_type) list
     \<Rightarrow> (string \<rightharpoonup> nat) \<Rightarrow> (string \<times> json) list \<times> (string \<rightharpoonup> nat)" where
  "extract_fields repr item [] field_errors = ([], field_errors)"
| "extract_fields repr item ((column, field_name, fallback, conv) # rest) field_errors =
     (let (v, errs) = safe_extract repr item field_name fallback conv field_errors;
          (record, errs') = extract_fields repr item rest errs
      in ((column, v) # record, errs'))"

definition extract_record ::
  "(json \<Rightarrow> string) \<Rightarrow> nat \<Rightarrow> (string \<times> json) list \<Rightarrow> (string \<rightharpoonup> nat)
     \<Rightarrow> (string \<times> json) list \<times> (string \<rightharpoonup> nat)" where
  "extract_record repr i item field_errors =
     extract_fields repr item (field_table i) field_errors"

section \<open>The paginated fetcher\<close>

subsection \<open>One page: \<^verbatim>\<open>fetch_spending_data_with_page\<close>\<close>

text \<open>
  What \<^verbatim>\<open>requests.post\<close> does with a request: it raises a timeout, a connection
  error or another exception, or it returns a response with a status code and
  a body; the body is \<open>None\<close> when \<^verbatim>\<open>response.json()\<close> raises on it. The network
  is a function from the award group, the limit and the page of the payload
  to such a reply.
\<close>

datatype http_reply = Timeout | ConnectionError | OtherFailure | Response nat "json option"

type_synonym network = "string \<Rightarrow> int \<Rightarrow> nat \<Rightarrow> http_reply"

definition award_type_groups :: "(string \<times> string list) list" where
  "award_type_groups =
     [(''contracts'', [''A'', ''B'', ''C'', ''D'']),
      (''grants'', [''02'', ''03'', ''04'', ''05'']),
      (''direct_payments'', [''06'', ''10'']),
      (''loans'', [''07'', ''08'']),
      (''other'', [''09'', ''11'', ''-1''])]"

text \<open>\<^verbatim>\<open>x[0]\<close> on a value that is true.\<close>

fun py_getitem0 :: "json \<Rightarrow> py_error + json" where
  "py_getitem0 (JList (x # xs)) = Inr x"
| "py_getitem0 (JStr (c # cs)) = Inr (JStr [c])"
| "py_getitem0 (JObj kvs) = Inl KeyError"
| "py_getitem0 _ = Inl TypeError"

text \<open>
  The debug lines between \<^verbatim>\<open>response.json()\<close> and the validation. They print
  \<^verbatim>\<open>response_data.keys()\<close> and, when \<^verbatim>\<open>results\<close> is present and true, the length of
  its first element and \<^verbatim>\<open>first_record.get('Award ID', 'No ID')\<close>; each can
  raise.
\<close>

definition debug_first_record :: "json \<Rightarrow> py_error + unit" where
  "debug_first_record response_data =
     (case response_data of
        JObj d \<Rightarrow>
          (case map_of d ''results'' of
             None \<Rightarrow> Inr ()
           | Some rv \<Rightarrow>
               if py_truthy rv then
                 (case py_getitem0 rv of
                    Inl e \<Rightarrow> Inl e
                  | Inr first_record \<Rightarrow>
                      (case py_len first_record of
                         Inl e \<Rightarrow> Inl e
                       | Inr _ \<Rightarrow>
                           (case first_record of
                              JObj _ \<Rightarrow> Inr ()
                            | _ \<Rightarrow> Inl AttributeError)))
               else Inr ())
      | _ \<Rightarrow> Inl AttributeError)"

text \<open>
  Every exception inside the \<^verbatim>\<open>try\<close> block, also one raised by the debug lines
  or by the validator, ends in a handler that returns \<^verbatim>\<open>None\<close>.
\<close>

definition fetch_spending_data_with_page ::
  "network \<Rightarrow> int \<Rightarrow> string \<Rightarrow> nat \<Rightarrow> json option" where
  "fetch_spending_data_with_page net limit award_group page =
     (if award_group \<notin> fst ` set award_type_groups then None
      else
        (case net award_group limit page of
           Timeout \<Rightarrow> None
         | ConnectionError \<Rightarrow> None
         | OtherFailure \<Rightarrow> None
         | Response status_code body \<Rightarrow>
             if status_code = 200 then
               (case body of
                  None \<Rightarrow> None
                | Some response_data \<Rightarrow>
                    (case debug_first_record response_data of
                       Inl e \<Rightarrow> None
                     | Inr _ \<Rightarrow>
                         (case validate_api_response response_data of
                            Inl e \<Rightarrow> None
                          | Inr valid \<Rightarrow> if valid then Some response_data else None)))
             else None))"

subsection \<open>The loop: \<^verbatim>\<open>fetch_spending_data_with_pagination\<close>\<close>

definition api_max_limit :: int where
  "api_max_limit = 100"

definition total_requests :: "int \<Rightarrow> int" where
  "total_requests total_limit = (total_limit + api_max_limit - 1) div api_max_limit"

text \<open>
  The test \<^verbatim>\<open>batch_data and 'results' in batch_data and batch_data['results']\<close>
  and the list it guards. A value returned by the page fetcher has passed the
  validator, so it is a dict whose \<^verbatim>\<open>results\<close> is a list; the other shapes
  cannot reach the test.
\<close>

definition batch_results :: "json option \<Rightarrow> json list option" where
  "batch_results batch_data =
     (case batch_data of
        Some (JObj d) \<Rightarrow>
          (case map_of d ''results'' of
             Some (JList rs) \<Rightarrow> if rs \<noteq> [] then Some rs else None
           | _ \<Rightarrow> None)
      | _ \<Rightarrow> None)"

text \<open>
  The state of the loop: the accumulator \<^verbatim>\<open>all_results\<close>, the loop variable and,
  for the statements below, the log of the requests issued: the page, the
  limit asked for and the records received (\<open>None\<close> on the branch
  \<^verbatim>\<open>No data received\<close>).
\<close>

record fetch_state =
  all_results :: "json list"
  request_num :: nat
  request_log :: "(nat \<times> int \<times> json list option) list"

text \<open>
  \<^verbatim>\<open>for request_num in range(total_requests)\<close>, as a recursion over the list of
  the values of the range. The pause between two requests is not modelled.
\<close>

fun fetch_loop :: "network \<Rightarrow> string \<Rightarrow> int \<Rightarrow> nat list \<Rightarrow> fetch_state \<Rightarrow> fetch_state" where
  "fetch_loop net award_group total_limit [] st = st"
| "fetch_loop net award_group total_limit (n # rest) st =
     (let remaining_records = total_limit - int (length (all_results st));
          current_limit = min api_max_limit remaining_records
      in if current_limit \<le> 0 then st\<lparr>request_num := n\<rparr>
         else
           (let current_page = n + 1;
                batch_data =
                  fetch_spending_data_with_page net current_limit award_group current_page
            in case batch_results batch_data of
                 Some rs \<Rightarrow>
                   (let st' = st\<lparr>all_results := all_results st @ rs, request_num := n,
                                 request_log := request_log st @
                                   [(current_page, current_limit, Some rs)]\<rparr>
                    in if int (length rs) < current_limit then st'
                       else fetch_loop net award_group total_limit rest st')
               | None \<Rightarrow>
                   fetch_loop net award_group total_limit rest
                     (st\<lparr>request_num := n,
                         request_log := request_log st @
                           [(current_page, current_limit, None)]\<rparr>)))"

definition run_pagination :: "network \<Rightarrow> int \<Rightarrow> string \<Rightarrow> fetch_state" where
  "run_pagination net total_limit award_group =
     fetch_loop net award_group total_limit [0..<nat (total_requests total_limit)]
       \<lparr>all_results = [], request_num = 0, request_log = []\<rparr>"

text \<open>
  The summary line \<^verbatim>\<open>len(set(r.get('Award ID', '') for r in all_results))\<close>
  stands outside every handler. The validator has only tested that the first
  record of each page contains one of the three fields, so a record may be no
  dict, on which \<^verbatim>\<open>r.get\<close> raises \<^verbatim>\<open>AttributeError\<close>, or may carry a list or a
  dict as its identifier, which cannot enter a set (\<^verbatim>\<open>TypeError\<close>). The records
  are visited in order and the first such record raises.
\<close>

fun unique_ids_check :: "json list \<Rightarrow> py_error + unit" where
  "unique_ids_check [] = Inr ()"
| "unique_ids_check (r # rs) =
     (case r of
        JObj d \<Rightarrow>
          (case (case map_of d ''Award ID'' of None \<Rightarrow> JStr [] | Some v \<Rightarrow> v) of
             JList _ \<Rightarrow> Inl TypeError
           | JObj _ \<Rightarrow> Inl TypeError
           | _ \<Rightarrow> unique_ids_check rs)
      | _ \<Rightarrow> Inl AttributeError)"

text \<open>
  The function itself: \<open>Inl\<close> is an exception that leaves it, \<open>Inr None\<close> the
  result \<^verbatim>\<open>None\<close> of a run that collected nothing.
\<close>

definition fetch_spending_data_with_pagination ::
  "network \<Rightarrow> int \<Rightarrow> string \<Rightarrow> py_error + json option" where
  "fetch_spending_data_with_pagination net total_limit award_group =
     (let st = run_pagination net total_limit award_group
      in if all_results st \<noteq> [] then
           (case unique_ids_check (all_results st) of
              Inl e \<Rightarrow> Inl e
            | Inr _ \<Rightarrow>
                Inr (Some (JObj
                  [(''results'', JList (all_results st)),
                   (''page_metadata'', JObj
                      [(''page'', JInt 1),
                       (''hasNext'', JBool False),
                       (''hasPrevious'', JBool False),
                       (''total'', JInt (int (length (all_results st)))),
                       (''requests_made'', JInt (int (request_num st) + 1)),
                       (''pagination_used'', JBool True)])])))
         else Inr None)"

text \<open>Reading the log: the number of records a request brought.\<close>

definition received :: "nat \<times> int \<times> json list option \<Rightarrow> nat" where
  "received e = (case snd (snd e) of None \<Rightarrow> 0 | Some rs \<Rightarrow> length rs)"

definition page_failed :: "nat \<times> int \<times> json list option \<Rightarrow> bool" where
  "page_failed e \<longleftrightarrow> snd (snd e) = None"

text \<open>
  Two statements about a log, in the words of the specification. The first:
  the requests are numbered from \<open>page\<close> on, one after the other, and each
  asks for the smaller of the page maximum and the records still missing,
  \<open>accumulated\<close> being the number of records received so far. The second: a
  request that brought nothing is followed by the request for the next page
  number, with the same limit, unless it was for the last of the \<open>planned\<close>
  pages.
\<close>

fun requests_follow_plan ::
  "int \<Rightarrow> int \<Rightarrow> nat \<Rightarrow> (nat \<times> int \<times> json list option) list \<Rightarrow> bool" where
  "requests_follow_plan target accumulated page [] = True"
| "requests_follow_plan target accumulated page (e # es) =
     (fst e = page \<and>
      fst (snd e) = min api_max_limit (target - accumulated) \<and>
      requests_follow_plan target (accumulated + int (received e)) (Suc page) es)"

fun failed_pages_skipped :: "nat \<Rightarrow> (nat \<times> int \<times> json list option) list \<Rightarrow> bool" where
  "failed_pages_skipped planned [] = True"
| "failed_pages_skipped planned [e] = (page_failed e \<longrightarrow> planned \<le> fst e)"
| "failed_pages_skipped planned (e # e' # es) =
     ((page_failed e \<longrightarrow> fst e' = Suc (fst e) \<and> fst (snd e') = fst (snd e)) \<and>
      failed_pages_skipped planned (e' # es))"

section \<open>The persistence writer\<close>

subsection \<open>Files and \<^verbatim>\<open>check_file_integrity\<close>\<close>

text \<open>
  What a later read finds in a file: its size, what \<^verbatim>\<open>pd.read_csv\<close> makes of it
  (the numbers of rows and columns, or \<open>None\<close> when it raises) and what
  \<^verbatim>\<open>json.load\<close> makes of it (\<open>None\<close> when it raises).
\<close>

datatype disk_file =
  DiskFile (file_size: nat) (read_csv: "(nat \<times> nat) option") (json_load: "json option")

text \<open>
  The surroundings of one call of \<^verbatim>\<open>save_data\<close>: the verdict of
  \<^verbatim>\<open>validate_storage_environment\<close>, the time stamp, which writes raise, whether
  building the JSON document raises, what is found at a path once it has been
  written, and the verdict of \<^verbatim>\<open>validate_saved_files\<close>.
\<close>

record environment =
  storage_ok :: bool
  timestamp :: string
  write_fails :: "string \<Rightarrow> bool"
  metadata_fails :: bool
  on_disk :: "string \<Rightarrow> disk_file option"
  saved_files_valid :: bool

definition DATA_DIR :: string where
  "DATA_DIR = ''data''"

definition os_path_join :: "string \<Rightarrow> string \<Rightarrow> string" where
  "os_path_join a b =
     (if b \<noteq> [] \<and> hd b = CHR ''/'' then b
      else if a = [] \<or> last a = CHR ''/'' then a @ b
      else a @ ''/'' @ b)"

definition str_endswith :: "string \<Rightarrow> string \<Rightarrow> bool" where
  "str_endswith s sfx \<longleftrightarrow> length sfx \<le> length s \<and> drop (length s - length sfx) s = sfx"

datatype integrity_message =
    FileDoesNotExist
  | FileIsEmpty
  | CsvContainsNoData
  | ValidCsv nat nat
  | JsonContainsNoData
  | ValidJson nat
  | FileExistsAndIsReadable
  | IntegrityCheckFailed

definition check_file_integrity :: "environment \<Rightarrow> string \<Rightarrow> bool \<times> integrity_message" where
  "check_file_integrity env file_path =
     (case on_disk env file_path of
        None \<Rightarrow> (False, FileDoesNotExist)
      | Some f \<Rightarrow>
          if file_size f = 0 then (False, FileIsEmpty)
          else if str_endswith file_path ''.csv'' then
            (case read_csv f of
               None \<Rightarrow> (False, IntegrityCheckFailed)
             | Some (n_rows, n_columns) \<Rightarrow>
                 if n_rows = 0 \<or> n_columns = 0 then (False, CsvContainsNoData)
                 else (True, ValidCsv n_rows n_columns))
          else if str_endswith file_path ''.json'' then
            (case json_load f of
               None \<Rightarrow> (False, IntegrityCheckFailed)
             | Some data \<Rightarrow>
                 if \<not> py_truthy data then (False, JsonContainsNoData)
                 else
                   (case data of
                      JObj d \<Rightarrow>
                        (case py_len (case map_of d ''records'' of None \<Rightarrow> JList [] | Some rs \<Rightarrow> rs) of
                           Inl e \<Rightarrow> (False, IntegrityCheckFailed)
                         | Inr n \<Rightarrow> (True, ValidJson n))
                    | _ \<Rightarrow> (False, IntegrityCheckFailed)))
          else (True, FileExistsAndIsReadable))"

subsection \<open>\<^verbatim>\<open>save_data\<close>\<close>

text \<open>
  What a call does to the data directory, in order: the write test of
  \<^verbatim>\<open>validate_storage_environment\<close>, a file written (or a write that raised),
  the backups made and rotated by \<^verbatim>\<open>create_backup_versions\<close>, and the lines
  appended to the two logs.
\<close>

datatype effect =
    StorageProbe
  | Wrote string
  | WriteFailed string
  | CreatedBackups
  | ValidationLogged
  | SaveLogged

definition csv_path :: "environment \<Rightarrow> string" where
  "csv_path env = os_path_join DATA_DIR (''spending_data_useful_'' @ timestamp env @ ''.csv'')"

definition json_path :: "environment \<Rightarrow> string" where
  "json_path env = os_path_join DATA_DIR (''spending_data_useful_'' @ timestamp env @ ''.json'')"

definition latest_csv_path :: string where
  "latest_csv_path = os_path_join DATA_DIR ''spending_data_useful_latest.csv''"

definition latest_json_path :: string where
  "latest_json_path = os_path_join DATA_DIR ''spending_data_useful_latest.json''"

text \<open>
  Writing one format: the time-stamped file, its check, the latest file, its
  check. The first component tells whether \<^verbatim>\<open>save_data\<close> goes on; when it is
  false the source has executed \<^verbatim>\<open>return False\<close>.
\<close>

definition write_and_check ::
  "environment \<Rightarrow> string \<Rightarrow> string \<Rightarrow> bool \<times> effect list" where
  "write_and_check env stamped latest =
     (if write_fails env stamped then (False, [WriteFailed stamped])
      else if \<not> fst (check_file_integrity env stamped) then (False, [Wrote stamped])
      else if write_fails env latest then (False, [Wrote stamped, WriteFailed latest])
      else if \<not> fst (check_file_integrity env latest) then (False, [Wrote stamped, Wrote latest])
      else (True, [Wrote stamped, Wrote latest]))"

definition save_csv :: "environment \<Rightarrow> string \<Rightarrow> bool \<times> effect list" where
  "save_csv env save_format =
     (if save_format \<in> {''csv'', ''both''} then write_and_check env (csv_path env) latest_csv_path
      else (True, []))"

definition save_json :: "environment \<Rightarrow> string \<Rightarrow> bool \<times> effect list" where
  "save_json env save_format =
     (if save_format \<in> {''json'', ''both''} then
        (if metadata_fails env then (False, [])
         else write_and_check env (json_path env) latest_json_path)
      else (True, []))"

definition save_data :: "environment \<Rightarrow> 'r dataframe \<Rightarrow> string \<Rightarrow> bool \<times> effect list" where
  "save_data env df save_format =
     (if df_empty df then (False, [])
      else if \<not> storage_ok env then (False, [StorageProbe])
      else
        (let (csv_ok, csv_effects) = save_csv env save_format
         in if \<not> csv_ok then (False, StorageProbe # csv_effects)
            else
              (let (json_ok, json_effects) = save_json env save_format
               in if \<not> json_ok then (False, StorageProbe # csv_effects @ json_effects)
                  else
                    (let effects = StorageProbe # csv_effects @ json_effects @
                                     [CreatedBackups, ValidationLogged]
                     in if saved_files_valid env then (True, effects @ [SaveLogged])
                        else (False, effects)))))"

section \<open>Properties of the cleaner\<close>

subsection \<open>Dropping duplicates and sorting\<close>

lemma set_drop_duplicates_from: "set (drop_duplicates_from seen df) \<subseteq> set df"
  by (induction df arbitrary: seen) auto






lemma sorted_wrt_drop_duplicates_from: "sorted_wrt P df \<Longrightarrow> sorted_wrt P (drop_duplicates_from seen df)"
proof (induction df arbitrary: seen)
  case Nil
  then show ?case by simp
next
  case (Cons a df)
  then show ?case using set_drop_duplicates_from by (fastforce)
qed




lemma stable_sorts_descending: "sorts_descending stable_sort_values"
proof -
  have "sorted_wrt (\<lambda>a b. award_amount b \<le> award_amount a)
          (sort_key (\<lambda>r. - award_amount r) df)" for df :: "'a row_scheme list"
    using sorted_sort_key [of "\<lambda>r. - award_amount r" df] by (simp add: sorted_map)
  then show ?thesis by (simp add: sorts_descending_def stable_sort_values_def)
qed















subsection \<open>Claims about the cleaner\<close>

text \<open>
  C1. The claim: the cleaner drops every record whose amount is exactly zero
  and whose recipient name contains \<^verbatim>\<open>Unknown\<close>, whatever the other records of
  the table are. The filter that does it stands inside the branch
  \<^verbatim>\<open>if negative_count > 0\<close>: a table with one such record and no negative amount
  comes back unchanged, while the same record is dropped as soon as another
  row has a negative amount.
\<close>

theorem C1_zero_unknown_row_survives:
  "zero_unknown
     \<lparr>award_id = ''A1'', recipient_name = ''Unknown Vendor'', award_amount = 0,
      awarding_agency = ''GSA''\<rparr> \<and>
   clean_dataframe stable_sort_values
     [\<lparr>award_id = ''A1'', recipient_name = ''Unknown Vendor'', award_amount = 0,
       awarding_agency = ''GSA''\<rparr>] =
     [\<lparr>award_id = ''A1'', recipient_name = ''Unknown Vendor'', award_amount = 0,
       awarding_agency = ''GSA''\<rparr>] \<and>
   clean_dataframe stable_sort_values
     [\<lparr>award_id = ''A1'', recipient_name = ''Unknown Vendor'', award_amount = 0,
       awarding_agency = ''GSA''\<rparr>,
      \<lparr>award_id = ''B2'', recipient_name = ''Acme'', award_amount = - 5,
       awarding_agency = ''GSA''\<rparr>] =
     [\<lparr>award_id = ''B2'', recipient_name = ''Acme'', award_amount = - 5,
       awarding_agency = ''GSA''\<rparr>]"
  by code_simp







section \<open>Properties of the quality gate\<close>

lemma duplicated_ids_only:
  "map award_id a = map award_id b \<Longrightarrow> duplicated seen a = duplicated seen b"
proof (induction a arbitrary: b seen)
  case Nil
  then show ?case by simp
next
  case (Cons x xs)
  then obtain y ys where b: "b = y # ys" by (cases b) auto
  with Cons.prems have "award_id x = award_id y" "map award_id xs = map award_id ys" by auto
  with Cons.IH [of ys "award_id x # seen"] b show ?case by simp
qed

lemma duplicate_count_ids_only:
  "map award_id a = map award_id b \<Longrightarrow> duplicate_count a = duplicate_count b"
  by (simp add: duplicate_count_def duplicated_ids_only [of a b "[]"])

lemma empty_recipients_map:
  "empty_recipients r = length (filter (\<lambda>n. py_strip n = []) (map recipient_name r))"
  by (simp add: empty_recipients_def filter_map comp_def)

lemma empty_recipients_names_only:
  assumes "map recipient_name a = map recipient_name b"
  shows "empty_recipients a = empty_recipients b"
  by (simp only: empty_recipients_map assms)

lemma tenth_compare:
  "(rat_of_nat c > rat_of_nat n * (1 / 10)) \<longleftrightarrow> n < 10 * c"
proof -
  have "(rat_of_nat c > rat_of_nat n * (1 / 10)) \<longleftrightarrow> rat_of_nat n < rat_of_nat (10 * c)"
    by (simp add: field_simps)
  also have "\<dots> \<longleftrightarrow> n < 10 * c" by (simp only: of_nat_less_iff)
  finally show ?thesis .
qed

lemma tenth_compare_sum:
  "(rat_of_nat n < rat_of_nat e * 10 + rat_of_nat d * 10) \<longleftrightarrow> n < 10 * e + 10 * d"
  using of_nat_less_iff [where ?'a = rat, of n "10 * e + 10 * d"] by (simp add: mult.commute)

lemma issues_found_empty:
  "issues_found rows = [] \<longleftrightarrow>
     empty_recipients rows = 0 \<and> invalid_amounts rows = 0 \<and> very_large_amounts rows = 0 \<and>
     empty_agencies rows = 0 \<and> duplicate_count rows = 0"
  by (simp add: issues_found_def)

lemma validate_processed_data_decision:
  assumes rows: "df_rows df \<noteq> []"
    and cols: "set required_columns \<subseteq> set (df_columns df)"
  shows "validate_processed_data df \<longleftrightarrow>
           \<not> length (df_rows df) < 10 * (empty_recipients (df_rows df) + duplicate_count (df_rows df))"
proof -
  have ne: "df_columns df \<noteq> []" using cols by (auto simp: required_columns_def)
  have e: "\<not> df_empty df" using rows ne by (simp add: df_empty_def)
  have m: "filter (\<lambda>col. col \<notin> set (df_columns df)) required_columns = []"
    using cols by (auto simp: filter_empty_conv)
  show ?thesis
  proof (cases "issues_found (df_rows df) = []")
    case True
    then have "empty_recipients (df_rows df) + duplicate_count (df_rows df) = 0"
      by (simp add: issues_found_empty)
    with True e m show ?thesis by (simp add: validate_processed_data_def)
  next
    case False
    with e m show ?thesis by (simp add: validate_processed_data_def Let_def tenth_compare_sum)
  qed
qed

text \<open>
  C6, as stated: for every table with the required columns the gate rejects
  exactly when the blank names and the duplicate identifiers together exceed
  a tenth of the rows. The guard \<^verbatim>\<open>if df.empty\<close> rejects the table without rows,
  where the count of critical issues, zero, does not exceed a tenth of zero
  rows.
\<close>

theorem C6_counterexample:
  "\<not> validate_processed_data (DataFrame required_columns ([] :: row list)) \<and>
   \<not> (rat_of_nat (empty_recipients ([] :: row list) + duplicate_count ([] :: row list)) >
        rat_of_nat (length ([] :: row list)) * (1 / 10))"
  by (simp add: validate_processed_data_def df_empty_def empty_recipients_def
      duplicate_count_def)

text \<open>
  C6, amended: for every table with at least one row and the required
  columns, the gate rejects if and only if ten times the number of blank
  recipient names plus duplicate identifiers exceeds the number of rows. Its
  verdict is the same for every table with the same columns of names and
  identifiers, whatever the amounts and the agencies are. A table in which 15
  percent of the rows have a blank name is rejected.
\<close>

theorem C6_rejects_iff_critical_issues_exceed_tenth:
  assumes rows: "df_rows df \<noteq> []"
    and cols: "set required_columns \<subseteq> set (df_columns df)"
  shows "(\<not> validate_processed_data df \<longleftrightarrow>
            length (df_rows df) <
              10 * (empty_recipients (df_rows df) + duplicate_count (df_rows df))) \<and>
         (\<forall>rows'. map recipient_name rows' = map recipient_name (df_rows df) \<and>
                   map award_id rows' = map award_id (df_rows df) \<longrightarrow>
            validate_processed_data (DataFrame (df_columns df) rows') =
              validate_processed_data df) \<and>
         (100 * empty_recipients (df_rows df) = 15 * length (df_rows df) \<longrightarrow>
            \<not> validate_processed_data df)"
proof (intro conjI allI impI)
  show 1: "\<not> validate_processed_data df \<longleftrightarrow>
        length (df_rows df) <
          10 * (empty_recipients (df_rows df) + duplicate_count (df_rows df))"
    using validate_processed_data_decision [OF rows cols] by simp
  show "validate_processed_data (DataFrame (df_columns df) rows') = validate_processed_data df"
    if h: "map recipient_name rows' = map recipient_name (df_rows df) \<and>
           map award_id rows' = map award_id (df_rows df)" for rows' :: "'b row_scheme list"
  proof -
    from h have l: "length rows' = length (df_rows df)" by (metis length_map)
    with rows have r': "df_rows (DataFrame (df_columns df) rows') \<noteq> []" by auto
    have c': "set required_columns \<subseteq> set (df_columns (DataFrame (df_columns df) rows'))"
      using cols by simp
    show ?thesis
      using validate_processed_data_decision [OF r' c']
        validate_processed_data_decision [OF rows cols] l
        empty_recipients_names_only [of rows' "df_rows df"]
        duplicate_count_ids_only [of rows' "df_rows df"] h
      by simp
  qed
  show "\<not> validate_processed_data df"
    if "100 * empty_recipients (df_rows df) = 15 * length (df_rows df)"
  proof -
    from rows have "0 < length (df_rows df)" by simp
    with that have "length (df_rows df) <
        10 * (empty_recipients (df_rows df) + duplicate_count (df_rows df))"
      by arith
    with 1 show ?thesis by simp
  qed
qed

theorem C6_witness:
  "df_rows (DataFrame required_columns
       (map (\<lambda>i. \<lparr>award_id = str_of_nat i,
                  recipient_name = (if i < 3 then '' '' else ''Acme''),
                  award_amount = 1, awarding_agency = ''GSA''\<rparr>) [0..<20])) \<noteq> [] \<and>
   set required_columns \<subseteq> set (df_columns (DataFrame required_columns
       (map (\<lambda>i. \<lparr>award_id = str_of_nat i,
                  recipient_name = (if i < 3 then '' '' else ''Acme''),
                  award_amount = 1, awarding_agency = ''GSA''\<rparr>) [0..<20]))) \<and>
   100 * empty_recipients (df_rows (DataFrame required_columns
       (map (\<lambda>i. \<lparr>award_id = str_of_nat i,
                  recipient_name = (if i < 3 then '' '' else ''Acme''),
                  award_amount = 1, awarding_agency = ''GSA''\<rparr>) [0..<20]))) =
     15 * length (df_rows (DataFrame required_columns
       (map (\<lambda>i. \<lparr>award_id = str_of_nat i,
                  recipient_name = (if i < 3 then '' '' else ''Acme''),
                  award_amount = 1, awarding_agency = ''GSA''\<rparr>) [0..<20]))) \<and>
   \<not> validate_processed_data (DataFrame required_columns
       (map (\<lambda>i. \<lparr>award_id = str_of_nat i,
                  recipient_name = (if i < 3 then '' '' else ''Acme''),
                  award_amount = 1, awarding_agency = ''GSA''\<rparr>) [0..<20]))"
proof -
  let ?df = "DataFrame required_columns
       (map (\<lambda>i. \<lparr>award_id = str_of_nat i,
                  recipient_name = (if i < 3 then '' '' else ''Acme''),
                  award_amount = 1, awarding_agency = ''GSA''\<rparr>) [0..<20])"
  have h1: "df_rows ?df \<noteq> []" by code_simp
  have h2: "set required_columns \<subseteq> set (df_columns ?df)" by simp
  have h3: "100 * empty_recipients (df_rows ?df) = 15 * length (df_rows ?df)" by code_simp
  show ?thesis
    using C6_rejects_iff_critical_issues_exceed_tenth [OF h1 h2] h1 h2 h3 by blast
qed

section \<open>Properties of the response validator\<close>

lemma find_fields_obj:
  "find_fields fs (JObj kvs) = Inr (filter (\<lambda>f. f \<in> fst ` set kvs) fs)"
  by (induction fs) auto

lemma find_fields_list:
  "find_fields fs (JList xs) = Inr (filter (\<lambda>f. JStr f \<in> set xs) fs)"
  by (induction fs) auto

lemma find_fields_str:
  "find_fields fs (JStr s) = Inr (filter (\<lambda>f. str_find f s) fs)"
  by (induction fs) auto

lemma validate_first_record:
  "map_of d ''results'' = Some (JList (first_record # rest)) \<Longrightarrow>
   (validate_api_response (JObj d) = Inr True) =
     (\<exists>f \<in> set basic_fields. py_in f first_record = Inr True)"
  by (cases first_record)
     (auto simp: validate_api_response_def find_fields_obj find_fields_list find_fields_str
        filter_empty_conv basic_fields_def)

lemma validate_first_record_dict:
  "map_of d ''results'' = Some (JList (JObj kvs # rest)) \<Longrightarrow>
   validate_api_response (JObj d) = Inr (\<exists>f \<in> set basic_fields. f \<in> fst ` set kvs)"
  by (auto simp: validate_api_response_def find_fields_obj filter_empty_conv)

lemma validate_not_dict:
  "(\<forall>d. response_data \<noteq> JObj d) \<Longrightarrow> validate_api_response response_data = Inr False"
  by (cases response_data) (auto simp: validate_api_response_def)

lemma validate_no_results:
  "map_of d ''results'' = None \<Longrightarrow> validate_api_response (JObj d) = Inr False"
  by (simp add: validate_api_response_def)

lemma validate_results_not_list:
  "map_of d ''results'' = Some v \<Longrightarrow> (\<forall>rs. v \<noteq> JList rs) \<Longrightarrow>
   validate_api_response (JObj d) = Inr False"
  by (cases v) (auto simp: validate_api_response_def)

lemma validate_empty_results:
  "map_of d ''results'' = Some (JList []) \<Longrightarrow> validate_api_response (JObj d) = Inr True"
  by (simp add: validate_api_response_def)

section \<open>Properties of the field extraction\<close>

lemma py_strip_fixed:
  "s \<noteq> [] \<Longrightarrow> \<not> py_isspace (hd s) \<Longrightarrow> \<not> py_isspace (last s) \<Longrightarrow> py_strip s = s"
proof -
  assume s: "s \<noteq> []" and h: "\<not> py_isspace (hd s)" and l: "\<not> py_isspace (last s)"
  from s h have 1: "dropWhile py_isspace s = s" by (cases s) auto
  from s l have "\<not> py_isspace (hd (rev s))" by (simp add: hd_rev)
  with s have 2: "dropWhile py_isspace (rev s) = rev s" by (cases "rev s") auto
  show ?thesis by (simp add: py_strip_def 1 2)
qed

lemma py_strip_trimmed:
  "py_strip s = [] \<or> (\<not> py_isspace (hd (py_strip s)) \<and> \<not> py_isspace (last (py_strip s)))"
proof (cases "py_strip s = []")
  case True
  then show ?thesis by simp
next
  case False
  define a where "a = dropWhile py_isspace s"
  define b where "b = dropWhile py_isspace (rev a)"
  have st: "py_strip s = rev b" by (simp add: py_strip_def a_def b_def)
  from False have b: "b \<noteq> []" by (simp add: st)
  have hb: "\<not> py_isspace (hd b)" using b unfolding b_def by (rule hd_dropWhile)
  have a: "a \<noteq> []"
  proof
    assume "a = []"
    then have "b = []" by (simp add: b_def)
    with b show False ..
  qed
  have ha: "\<not> py_isspace (hd a)" using a unfolding a_def by (rule hd_dropWhile)
  have "rev a = takeWhile py_isspace (rev a) @ b" by (simp add: b_def)
  then have "last (rev a) = last (takeWhile py_isspace (rev a) @ b)" by simp
  also have "\<dots> = last b" using b by simp
  finally have "last b = hd a" using a by (simp add: last_rev)
  then have "hd (py_strip s) = hd a" using b by (simp add: st hd_rev)
  moreover have "last (py_strip s) = hd b" using b by (simp add: st last_rev)
  ultimately show ?thesis using ha hb by simp
qed

lemma str_of_nat_nonempty: "str_of_nat n \<noteq> []"
  by (subst str_of_nat.simps) simp

lemma digit_char_not_space: "(k::nat) < 10 \<Longrightarrow> \<not> py_isspace (char_of (48 + k))"
proof -
  assume "k < 10"
  then have "(of_char (char_of (48 + k)) :: nat) = 48 + k" by simp
  with \<open>k < 10\<close> show ?thesis unfolding py_isspace_def by simp
qed

lemma last_str_of_nat: "\<not> py_isspace (last (str_of_nat n))"
proof (cases "n < 10")
  case True
  then have "str_of_nat n = [char_of (48 + n)]" by (subst str_of_nat.simps) simp
  with True show ?thesis by (simp add: digit_char_not_space)
next
  case False
  then have "last (str_of_nat n) = char_of (48 + n mod 10)" by (subst str_of_nat.simps) simp
  then show ?thesis by (simp add: digit_char_not_space)
qed

lemma unknown_id_fixed:
  "py_strip (''UNKNOWN_ID_'' @ str_of_nat n) = ''UNKNOWN_ID_'' @ str_of_nat n"
proof (rule py_strip_fixed)
  show "''UNKNOWN_ID_'' @ str_of_nat n \<noteq> []" by simp
  show "\<not> py_isspace (hd (''UNKNOWN_ID_'' @ str_of_nat n))" by (simp add: py_isspace_def)
  show "\<not> py_isspace (last (''UNKNOWN_ID_'' @ str_of_nat n))"
    by (simp add: str_of_nat_nonempty last_str_of_nat del: str_of_nat.simps)
qed

lemma safe_extract_null_or_empty:
  "map_of item field_name = Some JNull \<or> map_of item field_name = Some (JStr []) \<Longrightarrow>
   safe_extract repr item field_name fallback conv field_errors = (fallback, field_errors)"
  by (auto simp: safe_extract_def extract_value_def)

lemma safe_extract_missing_float:
  "map_of item field_name = None \<Longrightarrow>
   safe_extract repr item field_name (JFloat (Finite 0)) ConvFloat field_errors =
     (JFloat (Finite 0), field_errors)"
  by (simp add: safe_extract_def extract_value_def)

lemma safe_extract_missing_str:
  "map_of item field_name = None \<Longrightarrow> py_strip s = s \<Longrightarrow>
   safe_extract repr item field_name (JStr s) ConvStr field_errors = (JStr s, field_errors)"
  by (simp add: safe_extract_def extract_value_def py_str_def Let_def)

lemma strip_literals:
  "py_strip ''Unknown Recipient'' = ''Unknown Recipient''"
  "py_strip ''No ID'' = ''No ID''"
  "py_strip ''No UEI'' = ''No UEI''"
  "py_strip ''Unknown Agency'' = ''Unknown Agency''"
  "py_strip ''Unknown Code'' = ''Unknown Code''"
  "py_strip ''Unknown Sub Agency'' = ''Unknown Sub Agency''"
  "py_strip ''Unknown Funding Agency'' = ''Unknown Funding Agency''"
  "py_strip ''Unknown'' = ''Unknown''"
  "py_strip ''USA'' = ''USA''"
  "py_strip ''No Description'' = ''No Description''"
  "py_strip ''N/A'' = ''N/A''"
  "py_strip ''Unknown Date'' = ''Unknown Date''"
  by code_simp+

lemma declared_float: "declared (JFloat (Finite 0)) ConvFloat"
  by (simp add: declared_def)

lemma declared_str: "py_strip s = s \<Longrightarrow> declared (JStr s) ConvStr"
  by (simp add: declared_def)

lemma field_table_all_declared:
  "list_all (\<lambda>(column, field_name, fallback, conv). declared fallback conv) (field_table i)"
  unfolding field_table_def list.pred_inject split_conv
  by (intro conjI declared_float declared_str strip_literals unknown_id_fixed) simp

lemma field_table_declared:
  "(column, field_name, fallback, conv) \<in> set (field_table i) \<Longrightarrow> declared fallback conv"
  using field_table_all_declared [of i] unfolding list_all_iff by blast

lemma safe_extract_missing_declared:
  assumes "(column, field_name, fallback, conv) \<in> set (field_table i)"
    and "map_of item field_name = None"
  shows "safe_extract repr item field_name fallback conv field_errors = (fallback, field_errors)"
  using field_table_declared [OF assms(1)] assms(2)
  by (auto simp: declared_def safe_extract_missing_float safe_extract_missing_str)

lemma safe_extract_float_failure:
  "map_of item field_name = Some v \<Longrightarrow> v \<notin> {JNull, JStr [], JStr ''null''} \<Longrightarrow>
   py_float v = Inl e \<Longrightarrow>
   safe_extract repr item field_name fallback ConvFloat field_errors =
     (fallback, tally field_errors field_name)"
  by (simp add: safe_extract_def extract_value_def)

lemma safe_extract_int_failure:
  "map_of item field_name = Some v \<Longrightarrow> v \<notin> {JNull, JStr [], JStr ''null''} \<Longrightarrow>
   py_int v = Inl e \<Longrightarrow>
   safe_extract repr item field_name fallback ConvInt field_errors =
     (fallback, tally field_errors field_name)"
  by (simp add: safe_extract_def extract_value_def)

lemma safe_extract_str_trimmed:
  "map_of item field_name = Some v \<Longrightarrow> v \<noteq> JNull \<Longrightarrow> v \<noteq> JStr [] \<Longrightarrow>
   safe_extract repr item field_name fallback ConvStr field_errors =
     (JStr (py_strip (py_str repr v)), field_errors)"
  by (simp add: safe_extract_def extract_value_def)

lemma safe_extract_cases:
  "safe_extract repr item field_name fallback conv field_errors =
     (fallback, tally field_errors field_name) \<or>
   (\<exists>v. safe_extract repr item field_name fallback conv field_errors = (v, field_errors))"
  by (simp add: safe_extract_def split: sum.splits)

lemma digitpart_1000_50: "digitpart ''1000.50'' = (''1000'', ''.50'')"
  by (simp add: is_digit_def)

lemma digitpart_50: "digitpart ''50'' = (''50'', [])"
  by (simp add: is_digit_def)

lemma nat_of_digits_100050: "nat_of_digits ''100050'' = 100050"
  by (simp add: nat_of_digits_def digit_val_def)

lemma number_strip_1000_50: "number_strip ''1000.50'' = ''1000.50''"
  by code_simp

lemma parse_number_1000_50: "parse_number ''1000.50'' = Some (100050 / 100)"
  by (simp add: parse_number_def digitpart_1000_50 digitpart_50 nat_of_digits_100050 parse_exponent_def scale10_def del: digitpart.simps)

lemma float_overflow_large: "2 ^ 11 \<le> float_overflow"
proof -
  have "(2::rat) ^ 970 * 2 \<le> 2 ^ 970 * 2 ^ 54" by (intro mult_left_mono) simp_all
  then have a: "(2::rat) ^ 971 \<le> 2 ^ 1024" by (simp add: power_add [symmetric])
  have "(2::rat) ^ 11 \<le> 2 ^ 970" by (rule power_increasing) simp_all
  moreover have "(2::rat) ^ 971 = 2 ^ 970 + 2 ^ 970" by simp
  ultimately show ?thesis using a by (simp add: float_overflow_def)
qed

lemma to_float64_small: "\<bar>q\<bar> < 2048 \<Longrightarrow> to_float64 q = Finite q"
  using float_overflow_large unfolding to_float64_def by (auto simp: abs_if split: if_splits)

lemma parse_1000_50: "parse_float ''1000.50'' = Some (Finite (100050 / 100))"
  by (simp add: parse_float_def number_strip_1000_50 take_sign_def parse_number_1000_50
      py_lower_def to_float64_small)

lemma strip_X1: "py_strip ''X1'' = ''X1''" "py_strip ''Acme'' = ''Acme''"
  by code_simp+

lemma scenario_record:
  "map_of (fst (extract_record repr 0
       [(''Award ID'', JStr ''X1''), (''Recipient Name'', JStr ''Acme''),
        (''Award Amount'', JStr ''1000.50'')] field_errors)) ''award_id'' = Some (JStr ''X1'') \<and>
   map_of (fst (extract_record repr 0
       [(''Award ID'', JStr ''X1''), (''Recipient Name'', JStr ''Acme''),
        (''Award Amount'', JStr ''1000.50'')] field_errors)) ''recipient_name'' = Some (JStr ''Acme'') \<and>
   map_of (fst (extract_record repr 0
       [(''Award ID'', JStr ''X1''), (''Recipient Name'', JStr ''Acme''),
        (''Award Amount'', JStr ''1000.50'')] field_errors)) ''award_amount'' =
     Some (JFloat (Finite (100050 / 100))) \<and>
   snd (extract_record repr 0
       [(''Award ID'', JStr ''X1''), (''Recipient Name'', JStr ''Acme''),
        (''Award Amount'', JStr ''1000.50'')] field_errors) = field_errors"
  by (simp add: extract_record_def field_table_def safe_extract_def extract_value_def
      py_str_def parse_1000_50 strip_X1 strip_literals unknown_id_fixed Let_def)

lemma tally_count:
  "tally field_errors field_name field_name =
     Some ((case field_errors field_name of None \<Rightarrow> 0 | Some n \<Rightarrow> n) + 1)"
  by (simp add: tally_def)

lemma py_float_abc: "py_float (JStr ''abc'') = Inl ValueError"
  by (simp add: parse_float_def parse_number_def number_strip_def number_isspace_def take_sign_def
      py_lower_def is_digit_def)

lemma py_strip_padded_X1: "py_strip ''  X1 '' = ''X1''" by code_simp

section \<open>Claims about the response validator and the field extraction\<close>

text \<open>
  C9. The response validator returns false for every input that is not a
  mapping, that has no key \<^verbatim>\<open>results\<close>, or whose \<^verbatim>\<open>results\<close> is not a list; it
  returns true for every mapping whose \<^verbatim>\<open>results\<close> is the empty list; and for a
  non-empty list it returns true if and only if the first element contains
  one of \<^verbatim>\<open>Award ID\<close>, \<^verbatim>\<open>Recipient Name\<close>, \<^verbatim>\<open>Award Amount\<close>, where containing is
  Python's \<^verbatim>\<open>in\<close>. When the first element is itself a mapping, as the API sends
  it, the validator returns false in the other case; for a first element of
  another type that contains no such field, a debug line raises instead.
\<close>

theorem C9_validate_api_response:
  "((\<forall>d. response_data \<noteq> JObj d) \<longrightarrow> validate_api_response response_data = Inr False) \<and>
   (map_of d ''results'' = None \<longrightarrow> validate_api_response (JObj d) = Inr False) \<and>
   (map_of d ''results'' = Some v \<and> (\<forall>rs. v \<noteq> JList rs) \<longrightarrow>
      validate_api_response (JObj d) = Inr False) \<and>
   (map_of d ''results'' = Some (JList []) \<longrightarrow> validate_api_response (JObj d) = Inr True) \<and>
   (map_of d ''results'' = Some (JList (first_record # rest)) \<longrightarrow>
      (validate_api_response (JObj d) = Inr True \<longleftrightarrow>
         (\<exists>f \<in> set basic_fields. py_in f first_record = Inr True))) \<and>
   (map_of d ''results'' = Some (JList (JObj kvs # rest)) \<longrightarrow>
      validate_api_response (JObj d) = Inr (\<exists>f \<in> set basic_fields. f \<in> fst ` set kvs))"
  using validate_not_dict [of response_data] validate_no_results [of d]
    validate_results_not_list [of d v] validate_empty_results [of d]
    validate_first_record [of d first_record rest] validate_first_record_dict [of d kvs rest]
  by blast

theorem C9_witness:
  "validate_api_response (JList []) = Inr False \<and>
   validate_api_response (JObj [(''page_metadata'', JNull)]) = Inr False \<and>
   validate_api_response (JObj [(''results'', JStr ''none'')]) = Inr False \<and>
   validate_api_response (JObj [(''results'', JList [])]) = Inr True \<and>
   validate_api_response
     (JObj [(''results'', JList [JObj [(''Award ID'', JStr ''X1'')]])]) = Inr True \<and>
   validate_api_response
     (JObj [(''results'', JList [JObj [(''internal_id'', JInt 7)]])]) = Inr False"
proof -
  have 1: "\<forall>d. JList [] \<noteq> JObj d" by simp
  have 2: "map_of [(''page_metadata'', JNull)] ''results'' = None" by simp
  have 3: "map_of [(''results'', JStr ''none'')] ''results'' = Some (JStr ''none'') \<and>
           (\<forall>rs. JStr ''none'' \<noteq> JList rs)" by simp
  have 4: "map_of [(''results'', JList [])] ''results'' = Some (JList [])" by simp
  have 5: "map_of [(''results'', JList [JObj [(''Award ID'', JStr ''X1'')]])] ''results'' =
             Some (JList (JObj [(''Award ID'', JStr ''X1'')] # []))" by simp
  have 6: "map_of [(''results'', JList [JObj [(''internal_id'', JInt 7)]])] ''results'' =
             Some (JList (JObj [(''internal_id'', JInt 7)] # []))" by simp
  have 7: "\<exists>f \<in> set basic_fields. f \<in> fst ` set [(''Award ID'', JStr ''X1'')]"
    by (simp add: basic_fields_def)
  have 8: "\<not> (\<exists>f \<in> set basic_fields. f \<in> fst ` set [(''internal_id'', JInt 7)])"
    by (simp add: basic_fields_def)
  have a: "validate_api_response (JList []) = Inr False"
    using C9_validate_api_response [where response_data = "JList []"] 1 by blast
  have b: "validate_api_response (JObj [(''page_metadata'', JNull)]) = Inr False"
    using C9_validate_api_response [where d = "[(''page_metadata'', JNull)]"] 2 by blast
  have c: "validate_api_response (JObj [(''results'', JStr ''none'')]) = Inr False"
    using C9_validate_api_response
      [where d = "[(''results'', JStr ''none'')]" and v = "JStr ''none''"] 3
    by blast
  have d: "validate_api_response (JObj [(''results'', JList [])]) = Inr True"
    using C9_validate_api_response [where d = "[(''results'', JList [])]"] 4 by blast
  have e: "validate_api_response
     (JObj [(''results'', JList [JObj [(''Award ID'', JStr ''X1'')]])]) = Inr True"
    using C9_validate_api_response
      [where d = "[(''results'', JList [JObj [(''Award ID'', JStr ''X1'')]])]"
         and kvs = "[(''Award ID'', JStr ''X1'')]" and rest = "[]"] 5 7
    by simp
  have f: "validate_api_response
     (JObj [(''results'', JList [JObj [(''internal_id'', JInt 7)]])]) = Inr False"
    using C9_validate_api_response
      [where d = "[(''results'', JList [JObj [(''internal_id'', JInt 7)]])]"
         and kvs = "[(''internal_id'', JInt 7)]" and rest = "[]"] 6 8
    by simp
  from a b c d e f show ?thesis by blast
qed

text \<open>
  C8. Field extraction never raises to its caller: the model returns a value
  for every input, the fallback with a count added under the field name when
  the body raised, or a value with the counts unchanged. When the raw value
  is null or the empty string it returns the fallback; when the field is
  missing it returns the declared fallback, for every entry of the table of
  fields of the source. When \<^verbatim>\<open>float\<close> or \<^verbatim>\<open>int\<close> fails on the value it
  returns the fallback and counts the error under the field name. A value
  extracted as a string is the text of the raw value without blanks at either
  end. The raw record with Award ID \<^verbatim>\<open>X1\<close>, Recipient Name \<^verbatim>\<open>Acme\<close> and Award
  Amount \<^verbatim>\<open>1000.50\<close> yields these two strings and the amount 1000.50, with no
  error counted.
\<close>

theorem C8_safe_extract:
  "(safe_extract repr item field_name fallback conv field_errors =
      (fallback, tally field_errors field_name) \<or>
    (\<exists>x. safe_extract repr item field_name fallback conv field_errors = (x, field_errors))) \<and>
   (map_of item field_name = Some JNull \<or> map_of item field_name = Some (JStr []) \<longrightarrow>
      safe_extract repr item field_name fallback conv field_errors = (fallback, field_errors)) \<and>
   ((column, field_name, fallback, conv) \<in> set (field_table i) \<and>
    map_of item field_name = None \<longrightarrow>
      safe_extract repr item field_name fallback conv field_errors = (fallback, field_errors)) \<and>
   (map_of item field_name = Some v \<and> v \<notin> {JNull, JStr [], JStr ''null''} \<and>
    py_float v = Inl e \<longrightarrow>
      safe_extract repr item field_name fallback ConvFloat field_errors =
        (fallback, tally field_errors field_name)) \<and>
   (map_of item field_name = Some v \<and> v \<notin> {JNull, JStr [], JStr ''null''} \<and>
    py_int v = Inl e \<longrightarrow>
      safe_extract repr item field_name fallback ConvInt field_errors =
        (fallback, tally field_errors field_name)) \<and>
   tally field_errors field_name field_name =
     Some ((case field_errors field_name of None \<Rightarrow> 0 | Some n \<Rightarrow> n) + 1) \<and>
   (map_of item field_name = Some v \<and> v \<noteq> JNull \<and> v \<noteq> JStr [] \<longrightarrow>
      safe_extract repr item field_name fallback ConvStr field_errors =
        (JStr (py_strip (py_str repr v)), field_errors)) \<and>
   (py_strip s = [] \<or>
    (\<not> py_isspace (hd (py_strip s)) \<and> \<not> py_isspace (last (py_strip s)))) \<and>
   map_of (fst (extract_record repr 0
       [(''Award ID'', JStr ''X1''), (''Recipient Name'', JStr ''Acme''),
        (''Award Amount'', JStr ''1000.50'')] field_errors)) ''award_id'' = Some (JStr ''X1'') \<and>
   map_of (fst (extract_record repr 0
       [(''Award ID'', JStr ''X1''), (''Recipient Name'', JStr ''Acme''),
        (''Award Amount'', JStr ''1000.50'')] field_errors)) ''recipient_name'' =
     Some (JStr ''Acme'') \<and>
   map_of (fst (extract_record repr 0
       [(''Award ID'', JStr ''X1''), (''Recipient Name'', JStr ''Acme''),
        (''Award Amount'', JStr ''1000.50'')] field_errors)) ''award_amount'' =
     Some (JFloat (Finite (100050 / 100))) \<and>
   snd (extract_record repr 0
       [(''Award ID'', JStr ''X1''), (''Recipient Name'', JStr ''Acme''),
        (''Award Amount'', JStr ''1000.50'')] field_errors) = field_errors"
proof -
  have 1: "safe_extract repr item field_name fallback conv field_errors =
      (fallback, tally field_errors field_name) \<or>
    (\<exists>x. safe_extract repr item field_name fallback conv field_errors = (x, field_errors))"
    by (rule safe_extract_cases)
  have 2: "map_of item field_name = Some JNull \<or> map_of item field_name = Some (JStr []) \<longrightarrow>
      safe_extract repr item field_name fallback conv field_errors = (fallback, field_errors)"
    using safe_extract_null_or_empty by blast
  have 3: "(column, field_name, fallback, conv) \<in> set (field_table i) \<and>
    map_of item field_name = None \<longrightarrow>
      safe_extract repr item field_name fallback conv field_errors = (fallback, field_errors)"
    using safe_extract_missing_declared by blast
  have 4: "map_of item field_name = Some v \<and> v \<notin> {JNull, JStr [], JStr ''null''} \<and>
    py_float v = Inl e \<longrightarrow>
      safe_extract repr item field_name fallback ConvFloat field_errors =
        (fallback, tally field_errors field_name)"
    using safe_extract_float_failure by blast
  have 5: "map_of item field_name = Some v \<and> v \<notin> {JNull, JStr [], JStr ''null''} \<and>
    py_int v = Inl e \<longrightarrow>
      safe_extract repr item field_name fallback ConvInt field_errors =
        (fallback, tally field_errors field_name)"
    using safe_extract_int_failure by blast
  have 6: "map_of item field_name = Some v \<and> v \<noteq> JNull \<and> v \<noteq> JStr [] \<longrightarrow>
      safe_extract repr item field_name fallback ConvStr field_errors =
        (JStr (py_strip (py_str repr v)), field_errors)"
    using safe_extract_str_trimmed by blast
  show ?thesis
    by (intro conjI 1 2 3 4 5 6 tally_count py_strip_trimmed
        scenario_record [THEN conjunct1]
        scenario_record [THEN conjunct2, THEN conjunct1]
        scenario_record [THEN conjunct2, THEN conjunct2, THEN conjunct1]
        scenario_record [THEN conjunct2, THEN conjunct2, THEN conjunct2])
qed

theorem C8_witness:
  "map_of [(''Award ID'', JStr ''  X1 ''), (''Recipient Name'', JNull),
           (''Award Amount'', JStr ''abc'')] ''Recipient Name'' = Some JNull \<and>
   safe_extract (\<lambda>x. []) [(''Award ID'', JStr ''  X1 ''), (''Recipient Name'', JNull),
       (''Award Amount'', JStr ''abc'')] ''Recipient Name'' (JStr ''Unknown Recipient'') ConvStr
       Map.empty = (JStr ''Unknown Recipient'', Map.empty) \<and>
   (''recipient_id'', ''recipient_id'', JStr ''No ID'', ConvStr) \<in> set (field_table 0) \<and>
   map_of [(''Award ID'', JStr ''  X1 ''), (''Recipient Name'', JNull),
           (''Award Amount'', JStr ''abc'')] ''recipient_id'' = None \<and>
   safe_extract (\<lambda>x. []) [(''Award ID'', JStr ''  X1 ''), (''Recipient Name'', JNull),
       (''Award Amount'', JStr ''abc'')] ''recipient_id'' (JStr ''No ID'') ConvStr
       Map.empty = (JStr ''No ID'', Map.empty) \<and>
   py_float (JStr ''abc'') = Inl ValueError \<and>
   safe_extract (\<lambda>x. []) [(''Award ID'', JStr ''  X1 ''), (''Recipient Name'', JNull),
       (''Award Amount'', JStr ''abc'')] ''Award Amount'' (JFloat (Finite 0)) ConvFloat
       Map.empty = (JFloat (Finite 0), tally Map.empty ''Award Amount'') \<and>
   tally Map.empty ''Award Amount'' ''Award Amount'' = Some 1 \<and>
   safe_extract (\<lambda>x. []) [(''Award ID'', JStr ''  X1 ''), (''Recipient Name'', JNull),
       (''Award Amount'', JStr ''abc'')] ''Award ID'' (JStr ''UNKNOWN_ID_1'') ConvStr
       Map.empty = (JStr ''X1'', Map.empty)"
proof -
  let ?item = "[(''Award ID'', JStr ''  X1 ''), (''Recipient Name'', JNull),
           (''Award Amount'', JStr ''abc'')]"
  have h1: "map_of ?item ''Recipient Name'' = Some JNull" by simp
  have h2: "(''recipient_id'', ''recipient_id'', JStr ''No ID'', ConvStr) \<in> set (field_table 0)"
    by (simp add: field_table_def)
  have h3: "map_of ?item ''recipient_id'' = None" by simp
  have h4: "map_of ?item ''Award Amount'' = Some (JStr ''abc'') \<and>
            JStr ''abc'' \<notin> {JNull, JStr [], JStr ''null''}" by simp
  have h5: "map_of ?item ''Award ID'' = Some (JStr ''  X1 '') \<and>
            JStr ''  X1 '' \<noteq> JNull \<and> JStr ''  X1 '' \<noteq> JStr []" by simp
  have a: "safe_extract (\<lambda>x. []) ?item ''Recipient Name'' (JStr ''Unknown Recipient'') ConvStr
       Map.empty = (JStr ''Unknown Recipient'', Map.empty)"
    using C8_safe_extract [where item = ?item and field_name = "''Recipient Name''"
        and fallback = "JStr ''Unknown Recipient''" and conv = ConvStr
        and field_errors = Map.empty and repr = "\<lambda>x. []"] h1
    by blast
  have b: "safe_extract (\<lambda>x. []) ?item ''recipient_id'' (JStr ''No ID'') ConvStr
       Map.empty = (JStr ''No ID'', Map.empty)"
    using C8_safe_extract [where item = ?item and field_name = "''recipient_id''"
        and fallback = "JStr ''No ID''" and conv = ConvStr and column = "''recipient_id''"
        and i = 0 and field_errors = Map.empty and repr = "\<lambda>x. []"] h2 h3
    by blast
  have c: "safe_extract (\<lambda>x. []) ?item ''Award Amount'' (JFloat (Finite 0)) ConvFloat
       Map.empty = (JFloat (Finite 0), tally Map.empty ''Award Amount'')"
    using C8_safe_extract [where item = ?item and field_name = "''Award Amount''"
        and fallback = "JFloat (Finite 0)" and v = "JStr ''abc''" and e = ValueError
        and field_errors = Map.empty and repr = "\<lambda>x. []"] h4 py_float_abc
    by blast
  have d: "tally Map.empty ''Award Amount'' ''Award Amount'' = Some 1"
    using C8_safe_extract [where field_errors = Map.empty and field_name = "''Award Amount''"]
    by simp
  have e: "safe_extract (\<lambda>x. []) ?item ''Award ID'' (JStr ''UNKNOWN_ID_1'') ConvStr
       Map.empty = (JStr ''X1'', Map.empty)"
    using C8_safe_extract [where item = ?item and field_name = "''Award ID''"
        and fallback = "JStr ''UNKNOWN_ID_1''" and v = "JStr ''  X1 ''"
        and field_errors = Map.empty and repr = "\<lambda>x. []"] h5
    by (simp add: py_str_def py_strip_padded_X1)
  from h1 a h2 h3 b py_float_abc c d e show ?thesis by blast
qed

section \<open>Properties of the persistence writer\<close>

lemma write_and_check_props:
  assumes "write_and_check env a b = (ok, effs)"
  shows "(ok \<longrightarrow> (\<forall>p. Wrote p \<in> set effs \<longrightarrow> fst (check_file_integrity env p)))"
    and "CreatedBackups \<notin> set effs"
  using assms by (auto simp: write_and_check_def split: if_splits)

lemma save_csv_props:
  assumes "save_csv env save_format = (ok, effs)"
  shows "(ok \<longrightarrow> (\<forall>p. Wrote p \<in> set effs \<longrightarrow> fst (check_file_integrity env p)))"
    and "CreatedBackups \<notin> set effs"
  using assms write_and_check_props [of env "csv_path env" latest_csv_path ok effs]
  by (auto simp: save_csv_def split: if_splits)

lemma save_json_props:
  assumes "save_json env save_format = (ok, effs)"
  shows "(ok \<longrightarrow> (\<forall>p. Wrote p \<in> set effs \<longrightarrow> fst (check_file_integrity env p)))"
    and "CreatedBackups \<notin> set effs"
  using assms write_and_check_props [of env "json_path env" latest_json_path ok effs]
  by (auto simp: save_json_def split: if_splits)

text \<open>
  The backups are made only after every file written in the call has passed
  its check, and a call that succeeds has made them.
\<close>

lemma save_data_backups:
  assumes "CreatedBackups \<in> set (snd (save_data env df save_format))"
    and "Wrote p \<in> set (snd (save_data env df save_format))"
  shows "fst (check_file_integrity env p)"
proof -
  obtain c ce where c: "save_csv env save_format = (c, ce)" by (cases "save_csv env save_format")
  obtain j je where j: "save_json env save_format = (j, je)" by (cases "save_json env save_format")
  note pc = save_csv_props [OF c] and pj = save_json_props [OF j]
  from assms c j pc pj show ?thesis
    by (auto simp: save_data_def Let_def split: if_splits)
qed

lemma save_data_success_backups:
  assumes "fst (save_data env df save_format)"
  shows "CreatedBackups \<in> set (snd (save_data env df save_format))"
proof -
  obtain c ce where c: "save_csv env save_format = (c, ce)" by (cases "save_csv env save_format")
  obtain j je where j: "save_json env save_format = (j, je)" by (cases "save_json env save_format")
  from assms c j show ?thesis
    by (auto simp: save_data_def Let_def split: if_splits)
qed

text \<open>
  C7. If the integrity check of a file that \<^verbatim>\<open>save_data\<close> has just written
  fails, be it a CSV or a JSON file, time-stamped or latest, then the call
  returns failure and the backups are neither made nor rotated in that call;
  a call returns success only if every file it wrote passes its check.
\<close>

theorem C7_integrity_failure_aborts_save:
  "(Wrote p \<in> set (snd (save_data env df save_format)) \<and>
    \<not> fst (check_file_integrity env p) \<longrightarrow>
      \<not> fst (save_data env df save_format) \<and>
      CreatedBackups \<notin> set (snd (save_data env df save_format))) \<and>
   (fst (save_data env df save_format) \<longrightarrow>
      (\<forall>q. Wrote q \<in> set (snd (save_data env df save_format)) \<longrightarrow>
           fst (check_file_integrity env q)))"
  using save_data_backups [of env df save_format]
    save_data_success_backups [of env df save_format]
  by blast

theorem C7_witness:
  "Wrote ''data/spending_data_useful_latest.csv'' \<in> set (snd (save_data
      \<lparr>storage_ok = True, timestamp = ''20240101_120000'', write_fails = (\<lambda>p. False),
        metadata_fails = False,
        on_disk = (\<lambda>p. if p = ''data/spending_data_useful_latest.csv''
                        then Some (DiskFile 0 None None)
                        else Some (DiskFile 10 (Some (3, 31))
                               (Some (JObj [(''records'', JList [JNull])])))),
        saved_files_valid = True\<rparr>
      (DataFrame required_columns [''row'']) ''both'')) \<and>
   \<not> fst (check_file_integrity
      \<lparr>storage_ok = True, timestamp = ''20240101_120000'', write_fails = (\<lambda>p. False),
        metadata_fails = False,
        on_disk = (\<lambda>p. if p = ''data/spending_data_useful_latest.csv''
                        then Some (DiskFile 0 None None)
                        else Some (DiskFile 10 (Some (3, 31))
                               (Some (JObj [(''records'', JList [JNull])])))),
        saved_files_valid = True\<rparr>
      ''data/spending_data_useful_latest.csv'') \<and>
   \<not> fst (save_data
      \<lparr>storage_ok = True, timestamp = ''20240101_120000'', write_fails = (\<lambda>p. False),
        metadata_fails = False,
        on_disk = (\<lambda>p. if p = ''data/spending_data_useful_latest.csv''
                        then Some (DiskFile 0 None None)
                        else Some (DiskFile 10 (Some (3, 31))
                               (Some (JObj [(''records'', JList [JNull])])))),
        saved_files_valid = True\<rparr>
      (DataFrame required_columns [''row'']) ''both'') \<and>
   CreatedBackups \<notin> set (snd (save_data
      \<lparr>storage_ok = True, timestamp = ''20240101_120000'', write_fails = (\<lambda>p. False),
        metadata_fails = False,
        on_disk = (\<lambda>p. if p = ''data/spending_data_useful_latest.csv''
                        then Some (DiskFile 0 None None)
                        else Some (DiskFile 10 (Some (3, 31))
                               (Some (JObj [(''records'', JList [JNull])])))),
        saved_files_valid = True\<rparr>
      (DataFrame required_columns [''row'']) ''both'')) \<and>
   fst (save_data
      \<lparr>storage_ok = True, timestamp = ''20240101_120000'', write_fails = (\<lambda>p. False),
        metadata_fails = False,
        on_disk = (\<lambda>p. Some (DiskFile 10 (Some (3, 31))
                               (Some (JObj [(''records'', JList [JNull])])))),
        saved_files_valid = True\<rparr>
      (DataFrame required_columns [''row'']) ''both'') \<and>
   fst (check_file_integrity
      \<lparr>storage_ok = True, timestamp = ''20240101_120000'', write_fails = (\<lambda>p. False),
        metadata_fails = False,
        on_disk = (\<lambda>p. Some (DiskFile 10 (Some (3, 31))
                               (Some (JObj [(''records'', JList [JNull])])))),
        saved_files_valid = True\<rparr>
      ''data/spending_data_useful_20240101_120000.json'')"
proof -
  let ?bad = "\<lparr>storage_ok = True, timestamp = ''20240101_120000'', write_fails = (\<lambda>p. False),
        metadata_fails = False,
        on_disk = (\<lambda>p. if p = ''data/spending_data_useful_latest.csv''
                        then Some (DiskFile 0 None None)
                        else Some (DiskFile 10 (Some (3, 31))
                               (Some (JObj [(''records'', JList [JNull])])))),
        saved_files_valid = True\<rparr>"
  let ?good = "\<lparr>storage_ok = True, timestamp = ''20240101_120000'', write_fails = (\<lambda>p. False),
        metadata_fails = False,
        on_disk = (\<lambda>p. Some (DiskFile 10 (Some (3, 31))
                               (Some (JObj [(''records'', JList [JNull])])))),
        saved_files_valid = True\<rparr>"
  let ?df = "DataFrame required_columns [''row'']"
  have h1: "Wrote ''data/spending_data_useful_latest.csv'' \<in>
              set (snd (save_data ?bad ?df ''both''))"
    by code_simp
  have h2: "\<not> fst (check_file_integrity ?bad ''data/spending_data_useful_latest.csv'')"
    by code_simp
  have h3: "fst (save_data ?good ?df ''both'')"
    by code_simp
  have h4: "Wrote ''data/spending_data_useful_20240101_120000.json'' \<in>
              set (snd (save_data ?good ?df ''both''))"
    by code_simp
  have a: "\<not> fst (save_data ?bad ?df ''both'') \<and>
           CreatedBackups \<notin> set (snd (save_data ?bad ?df ''both''))"
    using C7_integrity_failure_aborts_save
      [where p = "''data/spending_data_useful_latest.csv''" and env = ?bad and df = ?df
         and save_format = "''both''"] h1 h2
    by blast
  have b: "fst (check_file_integrity ?good ''data/spending_data_useful_20240101_120000.json'')"
    using C7_integrity_failure_aborts_save
      [where env = ?good and df = ?df and save_format = "''both''"] h3 h4
    by blast
  from h1 h2 a h3 b show ?thesis by blast
qed

text \<open>
  C10. Called on an empty table, \<^verbatim>\<open>save_data\<close> returns failure at once: it
  performs no effect on the data directory, neither the write test nor a
  write, a backup or a log line.
\<close>

theorem C10_empty_table_not_saved:
  "df_empty df \<Longrightarrow> save_data env df save_format = (False, [])"
  by (simp add: save_data_def)

theorem C10_witness:
  "df_empty (DataFrame required_columns ([] :: row list)) \<and>
   save_data
      \<lparr>storage_ok = True, timestamp = ''20240101_120000'', write_fails = (\<lambda>p. False),
        metadata_fails = False,
        on_disk = (\<lambda>p. Some (DiskFile 10 (Some (3, 31))
                               (Some (JObj [(''records'', JList [JNull])])))),
        saved_files_valid = True\<rparr>
      (DataFrame required_columns ([] :: row list)) ''both'' = (False, [])"
proof -
  have h: "df_empty (DataFrame required_columns ([] :: row list))"
    by (simp add: df_empty_def)
  from h C10_empty_table_not_saved [OF h] show ?thesis by blast
qed

section \<open>Properties of the paginated fetcher\<close>

lemma failed_pages_skipped_Cons:
  "failed_pages_skipped planned (e # es) =
     ((page_failed e \<longrightarrow>
         (case es of [] \<Rightarrow> planned \<le> fst e
          | e' # _ \<Rightarrow> fst e' = Suc (fst e) \<and> fst (snd e') = fst (snd e))) \<and>
      failed_pages_skipped planned es)"
  by (cases es) auto

lemma fetch_loop_break:
  assumes "current_limit = min api_max_limit (total_limit - int (length (all_results st)))"
    and "current_limit \<le> 0"
  shows "fetch_loop net g total_limit (n # rest) st = st\<lparr>request_num := n\<rparr>"
  using assms(2) unfolding fetch_loop.simps Let_def assms(1) [symmetric] by simp

lemma fetch_loop_failed:
  assumes "current_limit = min api_max_limit (total_limit - int (length (all_results st)))"
    and "0 < current_limit"
    and "batch_results (fetch_spending_data_with_page net current_limit g (n + 1)) = None"
  shows "fetch_loop net g total_limit (n # rest) st =
     fetch_loop net g total_limit rest
       (st\<lparr>request_num := n, request_log := request_log st @ [(n + 1, current_limit, None)]\<rparr>)"
  using assms(2,3) unfolding fetch_loop.simps Let_def assms(1) [symmetric] by simp

lemma fetch_loop_short:
  assumes "current_limit = min api_max_limit (total_limit - int (length (all_results st)))"
    and "0 < current_limit"
    and "batch_results (fetch_spending_data_with_page net current_limit g (n + 1)) = Some rs"
    and "int (length rs) < current_limit"
  shows "fetch_loop net g total_limit (n # rest) st =
     st\<lparr>all_results := all_results st @ rs, request_num := n,
        request_log := request_log st @ [(n + 1, current_limit, Some rs)]\<rparr>"
  using assms(2,3,4) unfolding fetch_loop.simps Let_def assms(1) [symmetric] by simp

lemma fetch_loop_full:
  assumes "current_limit = min api_max_limit (total_limit - int (length (all_results st)))"
    and "0 < current_limit"
    and "batch_results (fetch_spending_data_with_page net current_limit g (n + 1)) = Some rs"
    and "\<not> int (length rs) < current_limit"
  shows "fetch_loop net g total_limit (n # rest) st =
     fetch_loop net g total_limit rest
       (st\<lparr>all_results := all_results st @ rs, request_num := n,
           request_log := request_log st @ [(n + 1, current_limit, Some rs)]\<rparr>)"
  using assms(2,3,4) unfolding fetch_loop.simps Let_def assms(1) [symmetric] by simp


lemma fetch_loop_Nil: "fetch_loop net g total_limit [] st = st"
  by simp

declare fetch_loop.simps [simp del]

lemma received_simps:
  "received (p, l, None) = 0" "received (p, l, Some rs) = length rs"
  "page_failed (p, l, None)" "\<not> page_failed (p, l, Some rs)"
  by (simp_all add: received_def page_failed_def)

lemma fetch_loop_log:
  assumes "ns = [n..<N]"
  shows "\<exists>new.
           request_log (fetch_loop net g total_limit ns st) = request_log st @ new \<and>
           int (length (all_results (fetch_loop net g total_limit ns st))) =
             int (length (all_results st)) + int (sum_list (map received new)) \<and>
           requests_follow_plan total_limit (int (length (all_results st))) (Suc n) new \<and>
           failed_pages_skipped N new \<and>
           (ns \<noteq> [] \<and> 0 < min api_max_limit (total_limit - int (length (all_results st)))
              \<longrightarrow> new \<noteq> []) \<and>
           length new \<le> length ns"
  using assms
proof (induction ns arbitrary: st n)
  case Nil
  show ?case by (rule exI [of _ "[]"]) (simp add: fetch_loop_Nil)
next
  case (Cons m rest)
  from Cons.prems have "[n..<N] = m # rest" by simp
  then have m: "m = n" and nN: "n < N" and rest: "rest = [Suc n..<N]"
    by (auto simp: upt_eq_Cons_conv)
  define current_limit
    where "current_limit = min api_max_limit (total_limit - int (length (all_results st)))"
  show ?case
  proof (cases "current_limit \<le> 0")
    case True
    have r: "fetch_loop net g total_limit (m # rest) st = st\<lparr>request_num := n\<rparr>"
      unfolding m by (rule fetch_loop_break [OF current_limit_def True])
    from True have n5: "\<not> 0 < min api_max_limit (total_limit - int (length (all_results st)))"
      unfolding current_limit_def by linarith
    show ?thesis
      using n5 unfolding r by (intro exI [of _ "[]"]) simp
  next
    case False
    then have pos: "0 < current_limit" by simp
    show ?thesis
    proof (cases "batch_results (fetch_spending_data_with_page net current_limit g (n + 1))")
      case None
      define e :: "nat \<times> int \<times> json list option" where "e = (n + 1, current_limit, None)"
      define st1 where "st1 = st\<lparr>request_num := n, request_log := request_log st @ [e]\<rparr>"
      have r: "fetch_loop net g total_limit (m # rest) st = fetch_loop net g total_limit rest st1"
        unfolding m st1_def e_def by (rule fetch_loop_failed [OF current_limit_def pos None])
      have a1: "all_results st1 = all_results st" and l1: "request_log st1 = request_log st @ [e]"
        by (simp_all add: st1_def)
      from Cons.IH [OF rest, of st1] obtain new' where
        i1: "request_log (fetch_loop net g total_limit rest st1) = request_log st1 @ new'"
        and i2: "int (length (all_results (fetch_loop net g total_limit rest st1))) =
             int (length (all_results st1)) + int (sum_list (map received new'))"
        and i3: "requests_follow_plan total_limit (int (length (all_results st1))) (Suc (Suc n)) new'"
        and i4: "failed_pages_skipped N new'"
        and i5: "rest \<noteq> [] \<and> 0 < min api_max_limit (total_limit - int (length (all_results st1)))
              \<longrightarrow> new' \<noteq> []"
        and i6: "length new' \<le> length rest"
        by blast
      have e1: "fst e = Suc n" "fst (snd e) = current_limit" "received e = 0" "page_failed e"
        by (simp_all add: e_def received_simps)
      have c1: "request_log (fetch_loop net g total_limit (m # rest) st) = request_log st @ e # new'"
        by (simp add: r i1 l1)
      have c2: "int (length (all_results (fetch_loop net g total_limit (m # rest) st))) =
             int (length (all_results st)) + int (sum_list (map received (e # new')))"
        by (simp add: r i2 a1 e1)
      have c3: "requests_follow_plan total_limit (int (length (all_results st))) (Suc n) (e # new')"
        using i3 by (simp add: e1 a1 current_limit_def)
      have c4: "failed_pages_skipped N (e # new')"
      proof (cases new')
        case Nil
        with i5 pos have "rest = []" by (simp add: a1 current_limit_def)
        with rest have "[Suc n..<N] = []" by simp
        then have "N \<le> Suc n" by auto
        with Nil show ?thesis by (simp add: e1)
      next
        case (Cons e' es)
        with i3 have "fst e' = Suc (Suc n)" "fst (snd e') = current_limit"
          by (simp_all add: a1 current_limit_def)
        with i4 Cons show ?thesis by (simp add: e1)
      qed
      have c6: "length (e # new') \<le> length (m # rest)" using i6 by simp
      from c1 c2 c3 c4 c6 show ?thesis by (intro exI [of _ "e # new'"]) simp
    next
      case (Some rs)
      define e :: "nat \<times> int \<times> json list option" where "e = (n + 1, current_limit, Some rs)"
      define st1 where "st1 = st\<lparr>all_results := all_results st @ rs, request_num := n,
                                request_log := request_log st @ [e]\<rparr>"
      have a1: "all_results st1 = all_results st @ rs"
        and l1: "request_log st1 = request_log st @ [e]"
        by (simp_all add: st1_def)
      have e1: "fst e = Suc n" "fst (snd e) = current_limit" "received e = length rs"
        "\<not> page_failed e"
        by (simp_all add: e_def received_simps)
      show ?thesis
      proof (cases "int (length rs) < current_limit")
        case True
        have r: "fetch_loop net g total_limit (m # rest) st = st1"
          unfolding m st1_def e_def by (rule fetch_loop_short [OF current_limit_def pos Some True])
        show ?thesis
          unfolding r
          by (intro exI [of _ "[e]"]) (simp add: a1 l1 e1 current_limit_def)
      next
        case False
        have r: "fetch_loop net g total_limit (m # rest) st =
                 fetch_loop net g total_limit rest st1"
          unfolding m st1_def e_def by (rule fetch_loop_full [OF current_limit_def pos Some False])
        from Cons.IH [OF rest, of st1] obtain new' where
          i1: "request_log (fetch_loop net g total_limit rest st1) = request_log st1 @ new'"
          and i2: "int (length (all_results (fetch_loop net g total_limit rest st1))) =
               int (length (all_results st1)) + int (sum_list (map received new'))"
          and i3: "requests_follow_plan total_limit (int (length (all_results st1))) (Suc (Suc n)) new'"
          and i4: "failed_pages_skipped N new'"
          and i6: "length new' \<le> length rest"
          by blast
        have c1: "request_log (fetch_loop net g total_limit (m # rest) st) =
                  request_log st @ e # new'"
          by (simp add: r i1 l1)
        have c2: "int (length (all_results (fetch_loop net g total_limit (m # rest) st))) =
               int (length (all_results st)) + int (sum_list (map received (e # new')))"
          by (simp add: r i2 a1 e1)
        have c3: "requests_follow_plan total_limit (int (length (all_results st))) (Suc n) (e # new')"
          using i3 by (simp add: e1 a1 current_limit_def)
        have c4: "failed_pages_skipped N (e # new')"
          using i4 by (simp add: failed_pages_skipped_Cons e1)
        have c6: "length (e # new') \<le> length (m # rest)" using i6 by simp
        from c1 c2 c3 c4 c6 show ?thesis by (intro exI [of _ "e # new'"]) simp
      qed
    qed
  qed
qed

lemma total_requests_ceiling:
  "total_requests total_limit = \<lceil>rat_of_int total_limit / 100\<rceil>"
proof -
  define q where "q = (total_limit + 99) div 100"
  have "total_limit + 99 = 100 * q + (total_limit + 99) mod 100"
    unfolding q_def by simp
  moreover have "0 \<le> (total_limit + 99) mod 100" "(total_limit + 99) mod 100 < 100"
    by simp_all
  ultimately have b: "total_limit \<le> 100 * q" "100 * q - 100 < total_limit" by linarith+
  from b(1) have "rat_of_int total_limit \<le> rat_of_int (100 * q)" by (simp only: of_int_le_iff)
  then have u: "rat_of_int total_limit / 100 \<le> rat_of_int q" by simp
  from b(2) have "rat_of_int (100 * q - 100) < rat_of_int total_limit"
    by (simp only: of_int_less_iff)
  then have l: "rat_of_int q - 1 < rat_of_int total_limit / 100" by simp
  from l u have "\<lceil>rat_of_int total_limit / 100\<rceil> = q" by (simp add: ceiling_eq_iff)
  then show ?thesis by (simp add: total_requests_def api_max_limit_def q_def)
qed

lemma run_pagination_log:
  "length (request_log (run_pagination net total_limit g)) \<le> nat (total_requests total_limit) \<and>
   requests_follow_plan total_limit 0 1 (request_log (run_pagination net total_limit g)) \<and>
   failed_pages_skipped (nat (total_requests total_limit))
     (request_log (run_pagination net total_limit g)) \<and>
   int (length (all_results (run_pagination net total_limit g))) =
     int (sum_list (map received (request_log (run_pagination net total_limit g))))"
  using fetch_loop_log [of "[0..<nat (total_requests total_limit)]" 0
      "nat (total_requests total_limit)" net g total_limit
      "\<lparr>all_results = [], request_num = 0, request_log = []\<rparr>"]
  by (auto simp: run_pagination_def)

lemma fetch_page_failures:
  "net g k page = Timeout \<or> net g k page = ConnectionError \<or> net g k page = OtherFailure \<Longrightarrow>
     fetch_spending_data_with_page net k g page = None"
  "net g k page = Response status body \<Longrightarrow> status \<noteq> 200 \<Longrightarrow>
     fetch_spending_data_with_page net k g page = None"
  "net g k page = Response 200 None \<Longrightarrow> fetch_spending_data_with_page net k g page = None"
  "net g k page = Response 200 (Some r) \<Longrightarrow> validate_api_response r \<noteq> Inr True \<Longrightarrow>
     fetch_spending_data_with_page net k g page = None"
  by (auto simp: fetch_spending_data_with_page_def split: sum.splits)

lemma fetch_loop_full_pages:
  assumes full: "\<forall>k page. 0 < k \<longrightarrow>
      (\<exists>rs. batch_results (fetch_spending_data_with_page net k g page) = Some rs \<and>
            int (length rs) = k)"
    and ns: "ns = [n..<N]"
    and acc: "int (length (all_results st)) = 100 * int n"
    and top: "100 * (int N - 1) < total_limit"
  shows "length (request_log (fetch_loop net g total_limit ns st)) =
           length (request_log st) + (N - n)"
  using ns acc
proof (induction ns arbitrary: st n)
  case Nil
  from Nil.prems(1) have "[n..<N] = []" by simp
  then have "N \<le> n" by auto
  then show ?case by (simp add: fetch_loop_Nil)
next
  case (Cons m rest)
  from Cons.prems(1) have "[n..<N] = m # rest" by simp
  then have m: "m = n" and nN: "n < N" and rest: "rest = [Suc n..<N]"
    by (auto simp: upt_eq_Cons_conv)
  define current_limit
    where "current_limit = min api_max_limit (total_limit - int (length (all_results st)))"
  have rem: "100 * (int N - 1) - 100 * int n < total_limit - int (length (all_results st))"
    using top Cons.prems(2) by simp
  have pos: "0 < current_limit"
    using rem nN unfolding current_limit_def api_max_limit_def by simp
  from full pos obtain rs where
    b: "batch_results (fetch_spending_data_with_page net current_limit g (n + 1)) = Some rs"
    and l: "int (length rs) = current_limit"
    by blast
  from l have ns: "\<not> int (length rs) < current_limit" by simp
  define st1 where "st1 = st\<lparr>all_results := all_results st @ rs, request_num := n,
      request_log := request_log st @ [(n + 1, current_limit, Some rs)]\<rparr>"
  have r: "fetch_loop net g total_limit (m # rest) st = fetch_loop net g total_limit rest st1"
    unfolding m st1_def by (rule fetch_loop_full [OF current_limit_def pos b ns])
  have l1: "length (request_log st1) = Suc (length (request_log st))" by (simp add: st1_def)
  show ?case
  proof (cases "Suc n < N")
    case True
    with rem have "current_limit = 100"
      unfolding current_limit_def api_max_limit_def by simp
    with l Cons.prems(2) have "int (length (all_results st1)) = 100 * int (Suc n)"
      by (simp add: st1_def)
    from Cons.IH [OF rest this] True show ?thesis by (simp add: r l1)
  next
    case False
    with nN have "N = Suc n" by simp
    with rest have "rest = []" by simp
    then have "fetch_loop net g total_limit rest st1 = st1" by (simp add: fetch_loop_Nil)
    with \<open>N = Suc n\<close> show ?thesis unfolding r by (simp add: l1)
  qed
qed

lemma run_pagination_full_pages:
  assumes full: "\<forall>k page. 0 < k \<longrightarrow>
      (\<exists>rs. batch_results (fetch_spending_data_with_page net k g page) = Some rs \<and>
            int (length rs) = k)"
    and pos: "0 < total_limit"
  shows "length (request_log (run_pagination net total_limit g)) = nat (total_requests total_limit)"
proof -
  have "100 * (int (nat (total_requests total_limit)) - 1) < total_limit"
    using pos unfolding total_requests_def api_max_limit_def by simp presburger
  from fetch_loop_full_pages [OF full refl _ this,
      of "\<lparr>all_results = [], request_num = 0, request_log = []\<rparr>" 0]
  show ?thesis by (simp add: run_pagination_def)
qed

lemma range_250: "[0..<nat (total_requests 250)] = [0, 1, 2]"
  by code_simp

lemma run_pagination_250:
  assumes full: "\<forall>k page. 0 < k \<longrightarrow>
      (\<exists>rs. batch_results (fetch_spending_data_with_page net k g page) = Some rs \<and>
            int (length rs) = k)"
  shows "map (\<lambda>e. (fst e, fst (snd e))) (request_log (run_pagination net 250 g)) =
           [(1, 100), (2, 100), (3, 50)]"
proof -
  define st0 :: fetch_state where "st0 = \<lparr>all_results = [], request_num = 0, request_log = []\<rparr>"
  from full obtain rs1 where
    b1: "batch_results (fetch_spending_data_with_page net 100 g (0 + 1)) = Some rs1"
    and l1: "int (length rs1) = 100"
    by (metis zero_less_numeral)
  define st1 where "st1 = st0\<lparr>all_results := all_results st0 @ rs1, request_num := 0,
      request_log := request_log st0 @ [(0 + 1, 100, Some rs1)]\<rparr>"
  have c0: "100 = min api_max_limit (250 - int (length (all_results st0)))"
    by (simp add: st0_def api_max_limit_def)
  have r1: "fetch_loop net g 250 (0 # [1, 2]) st0 = fetch_loop net g 250 [1, 2] st1"
    unfolding st1_def using l1 by (intro fetch_loop_full [OF c0 _ b1]) simp_all
  from full obtain rs2 where
    b2: "batch_results (fetch_spending_data_with_page net 100 g (1 + 1)) = Some rs2"
    and l2: "int (length rs2) = 100"
    by (metis zero_less_numeral)
  define st2 where "st2 = st1\<lparr>all_results := all_results st1 @ rs2, request_num := 1,
      request_log := request_log st1 @ [(1 + 1, 100, Some rs2)]\<rparr>"
  have c1: "100 = min api_max_limit (250 - int (length (all_results st1)))"
    using l1 by (simp add: st1_def st0_def api_max_limit_def)
  have r2: "fetch_loop net g 250 (1 # [2]) st1 = fetch_loop net g 250 [2] st2"
    unfolding st2_def using l2 by (intro fetch_loop_full [OF c1 _ b2]) simp_all
  from full obtain rs3 where
    b3: "batch_results (fetch_spending_data_with_page net 50 g (2 + 1)) = Some rs3"
    and l3: "int (length rs3) = 50"
    by (metis zero_less_numeral)
  define st3 where "st3 = st2\<lparr>all_results := all_results st2 @ rs3, request_num := 2,
      request_log := request_log st2 @ [(2 + 1, 50, Some rs3)]\<rparr>"
  have c2: "50 = min api_max_limit (250 - int (length (all_results st2)))"
    using l1 l2 by (simp add: st2_def st1_def st0_def api_max_limit_def)
  have r3: "fetch_loop net g 250 (2 # []) st2 = fetch_loop net g 250 [] st3"
    unfolding st3_def using l3 by (intro fetch_loop_full [OF c2 _ b3]) simp_all
  have "run_pagination net 250 g = st3"
    unfolding run_pagination_def range_250 st0_def [symmetric] r1 r2 r3 by (rule fetch_loop_Nil)
  then show ?thesis by (simp add: st3_def st2_def st1_def st0_def)
qed

lemma always_full_pages:
  "\<forall>k page. 0 < k \<longrightarrow>
     (\<exists>rs. batch_results (fetch_spending_data_with_page
        (\<lambda>g k page. Response 200 (Some (JObj [(''results'',
            JList (replicate (nat k) (JObj [(''Award ID'', JStr ''X1'')])))])))
        k ''contracts'' page) = Some rs \<and> int (length rs) = k)"
proof (intro allI impI)
  fix k :: int and page :: nat
  assume "0 < k"
  then obtain m where m: "nat k = Suc m" by (metis Suc_pred' zero_less_nat_eq)
  have "batch_results (fetch_spending_data_with_page
        (\<lambda>g k page. Response 200 (Some (JObj [(''results'',
            JList (replicate (nat k) (JObj [(''Award ID'', JStr ''X1'')])))])))
        k ''contracts'' page) =
        Some (replicate (nat k) (JObj [(''Award ID'', JStr ''X1'')]))"
    by (simp add: fetch_spending_data_with_page_def award_type_groups_def debug_first_record_def
        validate_api_response_def basic_fields_def batch_results_def m)
  moreover have "int (length (replicate (nat k) (JObj [(''Award ID'', JStr ''X1'')]))) = k"
    using \<open>0 < k\<close> by simp
  ultimately show "\<exists>rs. batch_results (fetch_spending_data_with_page
        (\<lambda>g k page. Response 200 (Some (JObj [(''results'',
            JList (replicate (nat k) (JObj [(''Award ID'', JStr ''X1'')])))])))
        k ''contracts'' page) = Some rs \<and> int (length rs) = k"
    by blast
qed

lemma failing_run:
  "map (\<lambda>e. (fst e, fst (snd e), page_failed e)) (request_log (run_pagination
     (\<lambda>g k page.
        if page = 1 then Timeout
        else if page = 2 then Response 503 None
        else if page = 3 then Response 200 None
        else if page = 4 then Response 200 (Some (JObj [(''detail'', JStr ''error'')]))
        else Response 200 (Some (JObj [(''results'',
               JList (replicate (nat k) (JObj [(''Award ID'', JStr ''X1'')])))])))
     500 ''contracts'')) =
   [(1, 100, True), (2, 100, True), (3, 100, True), (4, 100, True), (5, 100, False)]"
  by code_simp

lemma failing_run_results:
  "length (all_results (run_pagination
     (\<lambda>g k page.
        if page = 1 then Timeout
        else if page = 2 then Response 503 None
        else if page = 3 then Response 200 None
        else if page = 4 then Response 200 (Some (JObj [(''detail'', JStr ''error'')]))
        else Response 200 (Some (JObj [(''results'',
               JList (replicate (nat k) (JObj [(''Award ID'', JStr ''X1'')])))])))
     500 ''contracts'')) = 100"
  by code_simp

section \<open>Claims about the paginated fetcher\<close>

text \<open>
  C3. One failing page request never aborts the run. A request that times
  out, cannot connect or raises otherwise, a status other than 200, a body
  that is not JSON and a response that the validator does not accept all make
  the page fetcher return \<^verbatim>\<open>None\<close>, which the loop treats as a page without
  data: in the log of every run, a request that brought nothing is followed
  by the request for the next page number with the same limit, unless it was
  for the last planned page; and the records of the other pages are all in
  the result. The loop has no bound on consecutive failures, so this holds
  for any number of them.
\<close>

theorem C3_failed_page_is_skipped:
  "(net award_group k page = Timeout \<or> net award_group k page = ConnectionError \<or>
    net award_group k page = OtherFailure \<longrightarrow>
      fetch_spending_data_with_page net k award_group page = None) \<and>
   (net award_group k page = Response status_code body \<and> status_code \<noteq> 200 \<longrightarrow>
      fetch_spending_data_with_page net k award_group page = None) \<and>
   (net award_group k page = Response 200 None \<longrightarrow>
      fetch_spending_data_with_page net k award_group page = None) \<and>
   (net award_group k page = Response 200 (Some response_data) \<and>
    validate_api_response response_data \<noteq> Inr True \<longrightarrow>
      fetch_spending_data_with_page net k award_group page = None) \<and>
   batch_results None = None \<and>
   failed_pages_skipped (nat (total_requests total_limit))
     (request_log (run_pagination net total_limit award_group)) \<and>
   int (length (all_results (run_pagination net total_limit award_group))) =
     int (sum_list (map received (request_log (run_pagination net total_limit award_group))))"
  using fetch_page_failures [of net award_group k page]
    run_pagination_log [of net total_limit award_group]
  by (simp add: batch_results_def)

theorem C3_witness:
  "fetch_spending_data_with_page
     (\<lambda>g k page.
        if page = 1 then Timeout
        else if page = 2 then Response 503 None
        else if page = 3 then Response 200 None
        else if page = 4 then Response 200 (Some (JObj [(''detail'', JStr ''error'')]))
        else Response 200 (Some (JObj [(''results'',
               JList (replicate (nat k) (JObj [(''Award ID'', JStr ''X1'')])))])))
     100 ''contracts'' 1 = None \<and>
   fetch_spending_data_with_page
     (\<lambda>g k page.
        if page = 1 then Timeout
        else if page = 2 then Response 503 None
        else if page = 3 then Response 200 None
        else if page = 4 then Response 200 (Some (JObj [(''detail'', JStr ''error'')]))
        else Response 200 (Some (JObj [(''results'',
               JList (replicate (nat k) (JObj [(''Award ID'', JStr ''X1'')])))])))
     100 ''contracts'' 2 = None \<and>
   fetch_spending_data_with_page
     (\<lambda>g k page.
        if page = 1 then Timeout
        else if page = 2 then Response 503 None
        else if page = 3 then Response 200 None
        else if page = 4 then Response 200 (Some (JObj [(''detail'', JStr ''error'')]))
        else Response 200 (Some (JObj [(''results'',
               JList (replicate (nat k) (JObj [(''Award ID'', JStr ''X1'')])))])))
     100 ''contracts'' 3 = None \<and>
   fetch_spending_data_with_page
     (\<lambda>g k page.
        if page = 1 then Timeout
        else if page = 2 then Response 503 None
        else if page = 3 then Response 200 None
        else if page = 4 then Response 200 (Some (JObj [(''detail'', JStr ''error'')]))
        else Response 200 (Some (JObj [(''results'',
               JList (replicate (nat k) (JObj [(''Award ID'', JStr ''X1'')])))])))
     100 ''contracts'' 4 = None \<and>
   failed_pages_skipped (nat (total_requests 500)) (request_log (run_pagination
     (\<lambda>g k page.
        if page = 1 then Timeout
        else if page = 2 then Response 503 None
        else if page = 3 then Response 200 None
        else if page = 4 then Response 200 (Some (JObj [(''detail'', JStr ''error'')]))
        else Response 200 (Some (JObj [(''results'',
               JList (replicate (nat k) (JObj [(''Award ID'', JStr ''X1'')])))])))
     500 ''contracts'')) \<and>
   map (\<lambda>e. (fst e, fst (snd e), page_failed e)) (request_log (run_pagination
     (\<lambda>g k page.
        if page = 1 then Timeout
        else if page = 2 then Response 503 None
        else if page = 3 then Response 200 None
        else if page = 4 then Response 200 (Some (JObj [(''detail'', JStr ''error'')]))
        else Response 200 (Some (JObj [(''results'',
               JList (replicate (nat k) (JObj [(''Award ID'', JStr ''X1'')])))])))
     500 ''contracts'')) =
     [(1, 100, True), (2, 100, True), (3, 100, True), (4, 100, True), (5, 100, False)] \<and>
   length (all_results (run_pagination
     (\<lambda>g k page.
        if page = 1 then Timeout
        else if page = 2 then Response 503 None
        else if page = 3 then Response 200 None
        else if page = 4 then Response 200 (Some (JObj [(''detail'', JStr ''error'')]))
        else Response 200 (Some (JObj [(''results'',
               JList (replicate (nat k) (JObj [(''Award ID'', JStr ''X1'')])))])))
     500 ''contracts'')) = 100"
proof -
  let ?net = "\<lambda>(g :: string) (k :: int) (page :: nat).
        if page = 1 then Timeout
        else if page = 2 then Response 503 None
        else if page = 3 then Response 200 None
        else if page = 4 then Response 200 (Some (JObj [(''detail'', JStr ''error'')]))
        else Response 200 (Some (JObj [(''results'',
               JList (replicate (nat k) (JObj [(''Award ID'', JStr ''X1'')])))]))"
  have v: "validate_api_response (JObj [(''detail'', JStr ''error'')]) \<noteq> Inr True"
    by (simp add: validate_api_response_def)
  have 1: "fetch_spending_data_with_page ?net 100 ''contracts'' 1 = None"
    using C3_failed_page_is_skipped
      [where net = ?net and award_group = "''contracts''" and k = 100 and page = 1]
    by simp
  have 2: "fetch_spending_data_with_page ?net 100 ''contracts'' 2 = None"
    using C3_failed_page_is_skipped
      [where net = ?net and award_group = "''contracts''" and k = 100 and page = 2
         and status_code = 503 and body = None]
    by simp
  have 3: "fetch_spending_data_with_page ?net 100 ''contracts'' 3 = None"
    using C3_failed_page_is_skipped
      [where net = ?net and award_group = "''contracts''" and k = 100 and page = 3]
    by simp
  have 4: "fetch_spending_data_with_page ?net 100 ''contracts'' 4 = None"
    using C3_failed_page_is_skipped
      [where net = ?net and award_group = "''contracts''" and k = 100 and page = 4
         and response_data = "JObj [(''detail'', JStr ''error'')]"] v
    by simp
  have 5: "failed_pages_skipped (nat (total_requests 500))
             (request_log (run_pagination ?net 500 ''contracts''))"
    using C3_failed_page_is_skipped
      [where net = ?net and award_group = "''contracts''" and total_limit = 500]
    by blast
  from 1 2 3 4 5 failing_run failing_run_results show ?thesis by blast
qed

text \<open>
  C5. The fetcher plans \<open>\<lceil>total_limit / 100\<rceil>\<close> page requests and issues no more
  than that; the requests it issues are numbered from 1 without a gap and
  each asks for \<open>min 100 (total_limit - records accumulated so far)\<close>. When
  every page returns as many records as were asked for, a positive target
  makes it issue exactly the planned number of requests, and the target 250
  makes it issue three, for pages 1, 2 and 3 with the limits 100, 100 and 50.
\<close>

theorem C5_requests_follow_plan:
  "(0 < total_limit \<longrightarrow> total_requests total_limit = \<lceil>rat_of_int total_limit / 100\<rceil>) \<and>
   length (request_log (run_pagination net total_limit award_group)) \<le>
     nat (total_requests total_limit) \<and>
   requests_follow_plan total_limit 0 1
     (request_log (run_pagination net total_limit award_group)) \<and>
   int (length (all_results (run_pagination net total_limit award_group))) =
     int (sum_list (map received (request_log (run_pagination net total_limit award_group)))) \<and>
   ((\<forall>k page. 0 < k \<longrightarrow>
       (\<exists>rs. batch_results (fetch_spending_data_with_page net k award_group page) = Some rs \<and>
             int (length rs) = k)) \<longrightarrow>
      (0 < total_limit \<longrightarrow>
         length (request_log (run_pagination net total_limit award_group)) =
           nat (total_requests total_limit)) \<and>
      map (\<lambda>e. (fst e, fst (snd e))) (request_log (run_pagination net 250 award_group)) =
        [(1, 100), (2, 100), (3, 50)])"
  using total_requests_ceiling [of total_limit]
    run_pagination_log [of net total_limit award_group]
    run_pagination_full_pages [of net award_group total_limit]
    run_pagination_250 [of net award_group]
  by blast

theorem C5_witness:
  "0 < (250 :: int) \<and>
   total_requests 250 = \<lceil>rat_of_int 250 / 100\<rceil> \<and>
   nat (total_requests 250) = 3 \<and>
   length (request_log (run_pagination
     (\<lambda>g k page. Response 200 (Some (JObj [(''results'',
         JList (replicate (nat k) (JObj [(''Award ID'', JStr ''X1'')])))])))
     250 ''contracts'')) = nat (total_requests 250) \<and>
   map (\<lambda>e. (fst e, fst (snd e))) (request_log (run_pagination
     (\<lambda>g k page. Response 200 (Some (JObj [(''results'',
         JList (replicate (nat k) (JObj [(''Award ID'', JStr ''X1'')])))])))
     250 ''contracts'')) = [(1, 100), (2, 100), (3, 50)]"
proof -
  have p: "0 < (250 :: int)" by simp
  have n: "nat (total_requests 250) = 3" by code_simp
  from C5_requests_follow_plan
    [where total_limit = 250 and award_group = "''contracts''"
       and net = "\<lambda>g k page. Response 200 (Some (JObj [(''results'',
         JList (replicate (nat k) (JObj [(''Award ID'', JStr ''X1'')])))]))"]
    always_full_pages p n
  show ?thesis by blast
qed

end
